theory Spec2Isabelle
  imports Complex_Main "HOL-Library.Char_ord" "HOL-Library.List_Lexorder"
    "HOL-Library.Product_Lexorder" "HOL-Library.AList"
begin

section \<open>The scheduled post dispatcher \<open>post_to_x.js\<close>\<close>

text \<open>
  The source file \<^verbatim>\<open>.github/workflows/scripts/post_to_x.js\<close> holds five versions of the
  same script, one after the other. They are referred to by their position:
  \<^item> \<open>v1\<close> (lines 1-166): posts through the \<^verbatim>\<open>twitter-api-v2\<close> client, sorts the candidates
    by instant and id, rewrites the whole row;
  \<^item> \<open>v2\<close> (lines 167-299): a placeholder whose \<^verbatim>\<open>postToX\<close> declares \<^verbatim>\<open>text\<close> twice, so the
    module does not load; it is not modelled;
  \<^item> \<open>v3\<close> (lines 300-633): builds the OAuth 1.0a header itself (\<^verbatim>\<open>buildOAuth1Header\<close>), has a
    dry-run switch;
  \<^item> \<open>v4\<close> (lines 634-860): signs with the \<^verbatim>\<open>oauth-1.0a\<close> library, picks the first due row in
    sheet order;
  \<^item> \<open>v5\<close> (lines 861-1147): builds the OAuth 1.0a header itself (\<^verbatim>\<open>oauth1Header\<close>), writes
    single cells with a batch update.

  A function that exists in several versions carries the version as a suffix of its name.
  JavaScript strings are modelled as \<^typ>\<open>string\<close>, read as the UTF-8 bytes of the text
  (the cells, names and answers a run handles are well-formed Unicode text).
\<close>

subsection \<open>String built-ins\<close>

text \<open>
  \<^verbatim>\<open>String.prototype.trim\<close> removes the white space and the line terminators of ECMAScript
  from both ends: TAB, LF, VT, FF, CR, SPACE, U+00A0, U+1680, U+2000 to U+200A, U+2028,
  U+2029, U+202F, U+205F, U+3000 and U+FEFF. \<open>whiteSpace\<close> lists them as UTF-8 byte
  sequences; \<open>strip\<close> removes the sequences of a list from the front of a text as long as
  one of them stands there.
\<close>

definition whiteSpace :: "string list" where
  "whiteSpace =
     [[CHR 0x09], [CHR 0x0A], [CHR 0x0B], [CHR 0x0C], [CHR 0x0D], [CHR 0x20],
      [CHR 0xC2, CHR 0xA0], [CHR 0xE1, CHR 0x9A, CHR 0x80],
      [CHR 0xE2, CHR 0x80, CHR 0x80], [CHR 0xE2, CHR 0x80, CHR 0x81],
      [CHR 0xE2, CHR 0x80, CHR 0x82], [CHR 0xE2, CHR 0x80, CHR 0x83],
      [CHR 0xE2, CHR 0x80, CHR 0x84], [CHR 0xE2, CHR 0x80, CHR 0x85],
      [CHR 0xE2, CHR 0x80, CHR 0x86], [CHR 0xE2, CHR 0x80, CHR 0x87],
      [CHR 0xE2, CHR 0x80, CHR 0x88], [CHR 0xE2, CHR 0x80, CHR 0x89],
      [CHR 0xE2, CHR 0x80, CHR 0x8A], [CHR 0xE2, CHR 0x80, CHR 0xA8],
      [CHR 0xE2, CHR 0x80, CHR 0xA9], [CHR 0xE2, CHR 0x80, CHR 0xAF],
      [CHR 0xE2, CHR 0x81, CHR 0x9F], [CHR 0xE3, CHR 0x80, CHR 0x80],
      [CHR 0xEF, CHR 0xBB, CHR 0xBF]]"

definition tokenLength :: "string list \<Rightarrow> string \<Rightarrow> nat" where
  "tokenLength ts s =
     (case find (\<lambda>w. take (length w) s = w) ts of None \<Rightarrow> 0 | Some w \<Rightarrow> length w)"

function strip :: "string list \<Rightarrow> string \<Rightarrow> string" where
  "strip ts s = (if tokenLength ts s = 0 then s else strip ts (drop (tokenLength ts s) s))"
  by pat_completeness auto
termination
proof (relation "measure (\<lambda>p. length (snd p))")
  show "wf (measure (\<lambda>p. length (snd p)))" by simp
next
  fix ts :: "string list" and s :: string
  assume a: "tokenLength ts s \<noteq> 0"
  have "s \<noteq> []"
  proof
    assume "s = []"
    then have "tokenLength ts s = 0"
      by (auto simp: tokenLength_def find_Some_iff split: option.splits)
    with a show False by simp
  qed
  with a show "((ts, drop (tokenLength ts s) s), (ts, s)) \<in> measure (\<lambda>p. length (snd p))"
    by simp
qed

declare strip.simps [simp del]

definition trim :: "string \<Rightarrow> string" where
  "trim s = rev (strip (map rev whiteSpace) (rev (strip whiteSpace s)))"

text \<open>
  \<^verbatim>\<open>String.prototype.length\<close>, the number of UTF-16 code units: one for every code point
  (every byte that is not a continuation byte begins one) and one more for every code
  point beyond the Basic Multilingual Plane (whose first byte is \<open>F0\<close> or above).
\<close>

definition jsLength :: "string \<Rightarrow> nat" where
  "jsLength s =
     length (filter (\<lambda>c. (of_char c :: nat) < 128 \<or> 192 \<le> (of_char c :: nat)) s)
     + length (filter (\<lambda>c. 240 \<le> (of_char c :: nat)) s)"

text \<open>
  The letters A-Z and a-z. \<^verbatim>\<open>toUpperCase\<close> below is the built-in as \<^verbatim>\<open>percentEncode\<close>
  applies it, to the text of a hexadecimal numeral; \<open>asciiLowerCase\<close> is
  \<^verbatim>\<open>toLowerCase\<close> on text that is ASCII, as the examples are. On other text the two
  built-ins are parameters of a run (\<open>lowerCase\<close> and \<open>upperCase\<close> below).
\<close>

definition lowerChar :: "char \<Rightarrow> char" where
  "lowerChar c =
     (case map_of (zip ''ABCDEFGHIJKLMNOPQRSTUVWXYZ'' ''abcdefghijklmnopqrstuvwxyz'') c of
        Some l \<Rightarrow> l | None \<Rightarrow> c)"

definition asciiLowerCase :: "string \<Rightarrow> string" where
  "asciiLowerCase s = map lowerChar s"

definition upperChar :: "char \<Rightarrow> char" where
  "upperChar c =
     (case map_of (zip ''abcdefghijklmnopqrstuvwxyz'' ''ABCDEFGHIJKLMNOPQRSTUVWXYZ'') c of
        Some u \<Rightarrow> u | None \<Rightarrow> c)"

definition toUpperCase :: "string \<Rightarrow> string" where
  "toUpperCase s = map upperChar s"

text \<open>\<^verbatim>\<open>Number.prototype.toString(16)\<close> on a natural number: lower-case digits, no padding.\<close>

fun toString16 :: "nat \<Rightarrow> string" where
  "toString16 n = (if n < 16 then [''0123456789abcdef'' ! n]
                   else toString16 (n div 16) @ [''0123456789abcdef'' ! (n mod 16)])"

text \<open>
  \<^verbatim>\<open>encodeURIComponent\<close> on the UTF-8 bytes of its argument: the letters, the digits and
  \<^verbatim>\<open>- _ . ! ~ * ' ( )\<close> stay, every other byte becomes \<^verbatim>\<open>%XX\<close> with upper-case hexadecimal
  digits. (A string with a lone surrogate, on which the built-in throws, has no UTF-8 form
  and is outside the model.)
\<close>

definition uriUnescaped :: "char \<Rightarrow> bool" where
  "uriUnescaped c \<longleftrightarrow>
     c \<in> set (''ABCDEFGHIJKLMNOPQRSTUVWXYZabcdefghijklmnopqrstuvwxyz0123456789''
              @ ''-_.!~*'' @ [CHR 0x27] @ ''()'')"

definition hexOctet :: "char \<Rightarrow> string" where
  "hexOctet c =
     [''0123456789ABCDEF'' ! (of_char c div 16), ''0123456789ABCDEF'' ! (of_char c mod 16)]"

definition encodeURIComponent :: "string \<Rightarrow> string" where
  "encodeURIComponent s =
     concat (map (\<lambda>c. if uriUnescaped c then [c] else CHR ''%'' # hexOctet c) s)"

subsection \<open>The Signer's percent-encoding\<close>

text \<open>
  \<^verbatim>\<open>percentEncode\<close> (v3 lines 422-425, v5 lines 907-910, the same code):
  \<^verbatim>\<open>encodeURIComponent(str).replace(/[!'()*]/g, (c) => "%" + c.charCodeAt(0).toString(16).toUpperCase())\<close>
\<close>

definition percentEncode :: "string \<Rightarrow> string" where
  "percentEncode str =
     concat (map (\<lambda>c. if c \<in> set (''!'' @ [CHR 0x27] @ ''()*'')
                        then ''%'' @ toUpperCase (toString16 (of_char c)) else [c])
                 (encodeURIComponent str))"

text \<open>
  The encoding RFC 3986 asks of OAuth 1.0a, written from the specification: the unreserved
  characters are the letters, the digits and \<^verbatim>\<open>- _ . ~\<close>; every other byte is escaped.
\<close>

definition unreserved :: "char \<Rightarrow> bool" where
  "unreserved c \<longleftrightarrow>
     c \<in> set (''ABCDEFGHIJKLMNOPQRSTUVWXYZabcdefghijklmnopqrstuvwxyz0123456789'' @ ''-_.~'')"

definition rfc3986_encode :: "string \<Rightarrow> string" where
  "rfc3986_encode s =
     concat (map (\<lambda>c. if unreserved c then [c] else CHR ''%'' # hexOctet c) s)"

subsection \<open>JavaScript values\<close>

text \<open>
  A JavaScript number that is not an infinity: a finite double is a rational, and the sign
  of a difference of two doubles is the sign of the exact difference. \<open>NaN\<close> is what
  \<^verbatim>\<open>Number(v)\<close> gives for text that is no number and for \<^verbatim>\<open>undefined\<close>.
\<close>

datatype number = Num rat | NaN

fun minus_number :: "number \<Rightarrow> number \<Rightarrow> number" where
  "minus_number (Num a) (Num b) = Num (a - b)"
| "minus_number _ _ = NaN"

text \<open>The parsed body of an HTTP response.\<close>

datatype json = JNull | JBool bool | JNum rat | JStr string
  | JArr "json list" | JObj "(string \<times> json) list"

text \<open>\<^verbatim>\<open>v?.name\<close>: the member of an object, \<^verbatim>\<open>undefined\<close> (\<open>None\<close>) on anything else.\<close>

fun getMember :: "json option \<Rightarrow> string \<Rightarrow> json option" where
  "getMember (Some (JObj kvs)) name = map_of kvs name"
| "getMember _ name = None"

fun truthy :: "json option \<Rightarrow> bool" where
  "truthy None = False"
| "truthy (Some JNull) = False"
| "truthy (Some (JBool b)) = b"
| "truthy (Some (JNum q)) = (q \<noteq> 0)"
| "truthy (Some (JStr s)) = (s \<noteq> [])"
| "truthy (Some (JArr _)) = True"
| "truthy (Some (JObj _)) = True"

text \<open>
  An array read \<^verbatim>\<open>xs[i]\<close>: \<^verbatim>\<open>undefined\<close> (\<open>None\<close>) outside the array, also at index
  \<open>-1\<close>. \<^verbatim>\<open>v || ""\<close> and \<^verbatim>\<open>v ?? ""\<close> on a cell that is text or \<^verbatim>\<open>undefined\<close>, and the
  template literal of such a cell.
\<close>

definition elemAt :: "'a list \<Rightarrow> int \<Rightarrow> 'a option" where
  "elemAt xs i = (if 0 \<le> i \<and> nat i < length xs then Some (xs ! nat i) else None)"

fun orEmpty :: "string option \<Rightarrow> string" where
  "orEmpty None = []"
| "orEmpty (Some s) = s"

fun template :: "string option \<Rightarrow> string" where
  "template None = ''undefined''"
| "template (Some s) = s"

text \<open>\<^verbatim>\<open>Array.prototype.findIndex\<close>, with \<open>-1\<close> when no element satisfies the predicate.\<close>

fun findIndex :: "('a \<Rightarrow> bool) \<Rightarrow> 'a list \<Rightarrow> int" where
  "findIndex P [] = -1"
| "findIndex P (x # xs) =
     (if P x then 0 else (let k = findIndex P xs in if k = -1 then -1 else k + 1))"

text \<open>\<^verbatim>\<open>Array.prototype.find\<close>, with \<open>None\<close> for \<^verbatim>\<open>undefined\<close>.\<close>

fun find_first :: "('a \<Rightarrow> bool) \<Rightarrow> 'a list \<Rightarrow> 'a option" where
  "find_first P [] = None"
| "find_first P (x # xs) = (if P x then Some x else find_first P xs)"

text \<open>
  \<^verbatim>\<open>Array.prototype.sort(comparefn)\<close>. ECMAScript compares two elements with
  \<^verbatim>\<open>SortCompare\<close>, which takes a result \<open>NaN\<close> of the function for \<open>0\<close>, and asks for a
  stable sort: \<open>x\<close> moves behind \<open>y\<close> only when the result for \<open>x\<close> and \<open>y\<close> is above \<open>0\<close>.
  This fixes the result where the comparison is consistent for the elements (reflexive,
  symmetric and transitive where it is \<open>0\<close>, transitive where it is below and where it is
  above \<open>0\<close>); \<open>sortBy\<close> computes it by insertion. Where the comparison is not consistent
  ECMAScript leaves the order to the implementation (\<open>arraySort\<close> below).
\<close>

fun isPositive :: "number \<Rightarrow> bool" where
  "isPositive (Num q) = (0 < q)"
| "isPositive NaN = False"

fun isNegative :: "number \<Rightarrow> bool" where
  "isNegative (Num q) = (q < 0)"
| "isNegative NaN = False"

definition isZero :: "number \<Rightarrow> bool" where
  "isZero v \<longleftrightarrow> \<not> isPositive v \<and> \<not> isNegative v"

fun insertBy :: "('a \<Rightarrow> 'a \<Rightarrow> number) \<Rightarrow> 'a \<Rightarrow> 'a list \<Rightarrow> 'a list" where
  "insertBy cmp x [] = [x]"
| "insertBy cmp x (y # ys) = (if isPositive (cmp x y) then y # insertBy cmp x ys else x # y # ys)"

definition sortBy :: "('a \<Rightarrow> 'a \<Rightarrow> number) \<Rightarrow> 'a list \<Rightarrow> 'a list" where
  "sortBy cmp xs = foldr (insertBy cmp) xs []"

definition consistentComparator :: "('a \<Rightarrow> 'a \<Rightarrow> number) \<Rightarrow> 'a list \<Rightarrow> bool" where
  "consistentComparator cmp xs \<longleftrightarrow>
     list_all (\<lambda>a. isZero (cmp a a) \<and>
       list_all (\<lambda>b. (isZero (cmp a b) \<longrightarrow> isZero (cmp b a)) \<and>
         list_all (\<lambda>c.
             (isZero (cmp a b) \<and> isZero (cmp b c) \<longrightarrow> isZero (cmp a c))
           \<and> (isNegative (cmp a b) \<and> isNegative (cmp b c) \<longrightarrow> isNegative (cmp a c))
           \<and> (isPositive (cmp a b) \<and> isPositive (cmp b c) \<longrightarrow> isPositive (cmp a c))) xs) xs) xs"

subsection \<open>The outside world of one run\<close>

text \<open>
  What a run reads from outside, as one record:
  \<^item> \<open>dateParse\<close>: the time value of \<^verbatim>\<open>new Date(text)\<close> in milliseconds, \<open>None\<close> for an
    invalid date (\<^verbatim>\<open>getTime()\<close> is \<open>NaN\<close>);
  \<^item> \<open>toNumber\<close>: \<^verbatim>\<open>Number(text)\<close>;
  \<^item> \<open>lowerCase\<close>, \<open>upperCase\<close>: \<^verbatim>\<open>String.prototype.toLowerCase\<close> and \<^verbatim>\<open>toUpperCase\<close>, whose
    Unicode case tables are not reproduced here;
  \<^item> \<open>sortOrder\<close>: the order in which the engine leaves an array whose comparator is not
    consistent (see \<open>arraySort\<close> below);
  \<^item> \<open>stringify\<close>: \<^verbatim>\<open>JSON.stringify\<close>; \<open>jsString\<close>: \<^verbatim>\<open>String(v)\<close> of a value that is not
    text;
  \<^item> \<open>nowMs\<close>: the clock when the candidates are selected; \<open>isoNow\<close>: the text of
    \<^verbatim>\<open>new Date().toISOString()\<close> when the update is built;
  \<^item> \<open>tabName\<close>: the variable \<^verbatim>\<open>GOOGLE_SHEET_TAB\<close>; \<open>dryRun\<close>: the constant \<^verbatim>\<open>DRY_RUN\<close>;
  \<^item> \<open>sheet\<close>: the cells of the tab, row 1 first, before the run (no other writer changes
    it during the run);
  \<^item> \<open>tweetV2\<close>: what \<^verbatim>\<open>twitter.v2.tweet(text)\<close> of the \<^verbatim>\<open>twitter-api-v2\<close> client does, a
    thrown error or the response object;
  \<^item> \<open>httpPost\<close>: the posting endpoint's answer to \<^verbatim>\<open>fetch\<close> with a text.
\<close>

record response =
  httpStatus :: nat
  bodyText :: string
  bodyJson :: "json option"

text \<open>\<^verbatim>\<open>res.ok\<close> of the Fetch standard: the status is in 200-299.\<close>

definition ok :: "response \<Rightarrow> bool" where
  "ok res \<longleftrightarrow> 200 \<le> httpStatus res \<and> httpStatus res \<le> 299"

text \<open>\<^verbatim>\<open>await resp.json().catch(() => ({}))\<close>: the parsed body, or the empty object.\<close>

definition parsedOrEmpty :: "response \<Rightarrow> json" where
  "parsedOrEmpty resp = (case bodyJson resp of None \<Rightarrow> JObj [] | Some j \<Rightarrow> j)"

text \<open>
  The errors a run can end with. \<open>PostRejected\<close> is the \<^verbatim>\<open>X post failed (status): message\<close>
  error of \<^verbatim>\<open>postToX\<close>, \<open>PostSucceededWithoutId\<close> its \<^verbatim>\<open>no tweet id\<close> error.
\<close>

datatype error =
    MissingRequiredColumns
  | MissingColumn string
  | InvalidDateTime string string string
  | RowOutOfRange nat
  | PostRejected nat string
  | PostSucceededWithoutId
  | JsonSyntaxError
  | ClientError string
  | MissingEnv string
  | TabNotFound

record world =
  dateParse :: "string \<Rightarrow> int option"
  toNumber :: "string \<Rightarrow> number"
  lowerCase :: "string \<Rightarrow> string"
  upperCase :: "string \<Rightarrow> string"
  sortOrder :: "number list list \<Rightarrow> nat list"
  stringify :: "json \<Rightarrow> string"
  jsString :: "json \<Rightarrow> string"
  nowMs :: int
  isoNow :: string
  tabName :: string
  tabTitles :: "string list"
  dryRun :: bool
  sheet :: "string list list"
  tweetV2 :: "string \<Rightarrow> error + json"
  httpPost :: "string \<Rightarrow> response"

text \<open>
  The array after \<^verbatim>\<open>sort(comparefn)\<close>: the stable sort where the comparison is consistent,
  and otherwise the permutation the engine chooses, which \<open>sortOrder\<close> gives as a list of
  indices from the table of the results of the comparison (a list that is no permutation
  of the indices stands for the order as it was).
\<close>

definition permuted :: "nat list \<Rightarrow> 'a list \<Rightarrow> 'a list" where
  "permuted p xs = (if distinct p \<and> set p = {0..<length xs} then map (\<lambda>i. xs ! i) p else xs)"

definition arraySort :: "world \<Rightarrow> ('a \<Rightarrow> 'a \<Rightarrow> number) \<Rightarrow> 'a list \<Rightarrow> 'a list" where
  "arraySort W cmp xs =
     (if consistentComparator cmp xs then sortBy cmp xs
      else permuted (sortOrder W (map (\<lambda>a. map (cmp a) xs) xs)) xs)"

text \<open>\<^verbatim>\<open>Number(v)\<close> of a cell, and \<^verbatim>\<open>String(v)\<close> of a value.\<close>

fun Number_cell :: "world \<Rightarrow> string option \<Rightarrow> number" where
  "Number_cell W None = NaN"
| "Number_cell W (Some s) = toNumber W s"

fun String_json :: "world \<Rightarrow> json \<Rightarrow> string" where
  "String_json W (JStr s) = s"
| "String_json W v = jsString W v"

subsection \<open>The row store: ranges and requests\<close>

text \<open>
  \<open>Range tab c1 r1 c2 r2\<close> is the A1 range \<^verbatim>\<open>tab!c1r1:c2r2\<close>; a row number that is \<open>None\<close>
  is left out, as in \<^verbatim>\<open>A:Z\<close>. The calls a run makes on the outside are collected in
  the order they are made.
\<close>

datatype range = Range string string "nat option" string "nat option"

datatype call =
    ValuesGet range
  | ValuesUpdate range "string list"
  | ValuesBatchUpdate "(range \<times> string) list"
  | TweetsPost string

text \<open>
  What \<^verbatim>\<open>spreadsheets.values.get\<close> returns for the columns A to Z of the tab (optionally
  of its first \<open>n\<close> rows) and for one of its rows: 26 cells of a row at most, trailing
  empty cells and trailing empty rows left out.
\<close>

definition dropTrailing :: "'a \<Rightarrow> 'a list \<Rightarrow> 'a list" where
  "dropTrailing e xs = rev (dropWhile (\<lambda>x. x = e) (rev xs))"

definition rowAZ :: "string list \<Rightarrow> string list" where
  "rowAZ cells = dropTrailing [] (take 26 cells)"

definition valuesGet :: "string list list \<Rightarrow> nat option \<Rightarrow> string list list" where
  "valuesGet sh n =
     dropTrailing [] (map rowAZ (case n of None \<Rightarrow> sh | Some k \<Rightarrow> take k sh))"

definition valuesGetRow :: "string list list \<Rightarrow> nat \<Rightarrow> string list" where
  "valuesGetRow sh r = (if 1 \<le> r \<and> r \<le> length sh then rowAZ (sh ! (r - 1)) else [])"

text \<open>The outcome of a run that ends without an error.\<close>

datatype outcome = NoRows | NothingDue | NoStatusColumn | SkippedRow nat | PostedRow nat
  | WouldPost nat | EmptyTextRow nat

fun posts :: "call list \<Rightarrow> string list" where
  "posts [] = []"
| "posts (TweetsPost t # cs) = t # posts cs"
| "posts (_ # cs) = posts cs"

fun isWrite :: "call \<Rightarrow> bool" where
  "isWrite (ValuesUpdate _ _) = True"
| "isWrite (ValuesBatchUpdate _) = True"
| "isWrite _ = False"

subsection \<open>Version 1 (lines 1-166)\<close>

text \<open>
  \<^verbatim>\<open>parseUtcDateTime\<close> (lines 21-30). The arguments are cells of a row, \<^verbatim>\<open>undefined\<close> where
  the row is too short. The result is \<open>None\<close> where the code returns \<^verbatim>\<open>null\<close>.
\<close>

definition parseUtcDateTime_v1 :: "world \<Rightarrow> string option \<Rightarrow> string option \<Rightarrow> int option" where
  "parseUtcDateTime_v1 W publishDate timeUtc =
     (let t = trim (orEmpty timeUtc);
          time = (if jsLength t = 5 then t @ '':00'' else t);
          isoText = template publishDate @ ''T'' @ time @ ''Z''
      in dateParse W isoText)"

text \<open>
  The candidates of \<^verbatim>\<open>main\<close> (lines 84-93): the objects \<^verbatim>\<open>{ r, i, sheetRow, dt, id }\<close>, the
  comparator \<^verbatim>\<open>a.dt - b.dt || a.id - b.id\<close> (a \<^verbatim>\<open>null\<close> date counts as \<open>0\<close> in a
  subtraction; \<^verbatim>\<open>||\<close> takes its right side when the left one is \<open>0\<close>).
\<close>

record cand_v1 =
  c_r :: "string list"
  c_i :: nat
  c_sheetRow :: nat
  c_dt :: "int option"
  c_id :: number

fun dtValue :: "int option \<Rightarrow> int" where
  "dtValue None = 0"
| "dtValue (Some t) = t"

definition compare_v1 :: "cand_v1 \<Rightarrow> cand_v1 \<Rightarrow> number" where
  "compare_v1 a b =
     (let d = dtValue (c_dt a) - dtValue (c_dt b)
      in if d \<noteq> 0 then Num (of_int d) else minus_number (c_id a) (c_id b))"

definition due_v1 :: "world \<Rightarrow> cand_v1 \<Rightarrow> bool" where
  "due_v1 W x = (case c_dt x of None \<Rightarrow> False | Some t \<Rightarrow> t \<le> nowMs W)"

definition pending_v1 :: "world \<Rightarrow> int \<Rightarrow> string list \<times> nat \<Rightarrow> bool" where
  "pending_v1 W idxStatus ri =
     (lowerCase W (trim (orEmpty (elemAt (fst ri) idxStatus))) = ''pending'')"

definition mkCand_v1 :: "world \<Rightarrow> int \<Rightarrow> int \<Rightarrow> int \<Rightarrow> string list \<times> nat \<Rightarrow> cand_v1" where
  "mkCand_v1 W idxPublishDate idxTimeUtc idxId ri =
     \<lparr>c_r = fst ri, c_i = snd ri, c_sheetRow = snd ri + 2,
      c_dt = parseUtcDateTime_v1 W (elemAt (fst ri) idxPublishDate) (elemAt (fst ri) idxTimeUtc),
      c_id = Number_cell W (elemAt (fst ri) idxId)\<rparr>"

definition dueRows_v1 ::
  "world \<Rightarrow> int \<Rightarrow> int \<Rightarrow> int \<Rightarrow> int \<Rightarrow> string list list \<Rightarrow> cand_v1 list" where
  "dueRows_v1 W idxPublishDate idxTimeUtc idxStatus idxId rows =
     filter (due_v1 W)
       (map (mkCand_v1 W idxPublishDate idxTimeUtc idxId)
         (filter (pending_v1 W idxStatus) (zip rows [0..<length rows])))"

definition candidates_v1 ::
  "world \<Rightarrow> int \<Rightarrow> int \<Rightarrow> int \<Rightarrow> int \<Rightarrow> string list list \<Rightarrow> cand_v1 list" where
  "candidates_v1 W idxPublishDate idxTimeUtc idxStatus idxId rows =
     arraySort W compare_v1 (dueRows_v1 W idxPublishDate idxTimeUtc idxStatus idxId rows)"

text \<open>
  \<^verbatim>\<open>updateRow\<close> (lines 136-161): reads the row again, copies its cells under the headers,
  sets the cells of the named columns that exist, and writes the row back.
\<close>

definition setCell_v1 :: "world \<Rightarrow> string list \<Rightarrow> string list \<Rightarrow> string \<times> string \<Rightarrow> string list" where
  "setCell_v1 W headers cells kv =
     (let idx = findIndex (\<lambda>h. lowerCase W h = lowerCase W (fst kv)) headers
      in if idx \<noteq> -1 then cells[nat idx := snd kv] else cells)"

definition cells_v1 :: "world \<Rightarrow> string list \<Rightarrow> (string \<times> string) list \<Rightarrow> string list \<Rightarrow> string list" where
  "cells_v1 W headers updatesObj current =
     foldl (setCell_v1 W headers)
       (map (\<lambda>i. orEmpty (elemAt current (int i))) [0..<length headers]) updatesObj"

definition updateRow_v1 :: "world \<Rightarrow> nat \<Rightarrow> string list \<Rightarrow> (string \<times> string) list \<Rightarrow> call list" where
  "updateRow_v1 W sheetRow headers updatesObj =
     (let rowRange = Range (tabName W) ''A'' (Some sheetRow) ''Z'' (Some sheetRow);
          current = valuesGetRow (sheet W) sheetRow
      in [ValuesGet rowRange, ValuesUpdate rowRange (cells_v1 W headers updatesObj current)])"

text \<open>\<^verbatim>\<open>v || ""\<close> of a member of the response, as text.\<close>

definition orEmptyText :: "world \<Rightarrow> json option \<Rightarrow> string" where
  "orEmptyText W v = (case v of None \<Rightarrow> [] | Some j \<Rightarrow> if truthy (Some j) then String_json W j else [])"

text \<open>\<^verbatim>\<open>main\<close> (lines 43-134): the result of the run and the calls it made.\<close>

definition dispatch_v1 :: "world \<Rightarrow> string list \<Rightarrow> int \<Rightarrow> call \<Rightarrow> cand_v1 \<Rightarrow> (error + outcome) \<times> call list" where
  "dispatch_v1 W headers idxPostText fetch item =
     (let postText = trim (orEmpty (elemAt (c_r item) idxPostText))
      in if postText = [] then
           (Inr (SkippedRow (c_sheetRow item)),
            fetch # updateRow_v1 W (c_sheetRow item) headers
                      [(''Status'', ''Skipped''), (''Posted At'', isoNow W)])
         else
           (case tweetV2 W postText of
              Inl e \<Rightarrow> (Inl e, [fetch, TweetsPost postText])
            | Inr tweet \<Rightarrow>
                (Inr (PostedRow (c_sheetRow item)),
                 fetch # TweetsPost postText #
                   updateRow_v1 W (c_sheetRow item) headers
                     [(''Status'', ''Posted''), (''Posted At'', isoNow W),
                      (''Tweet ID'',
                       orEmptyText W (getMember (getMember (Some tweet) ''data'') ''id''))])))"

text \<open>
  The first part of \<^verbatim>\<open>main\<close> (lines 43-100) ends the run (\<open>Inl\<close>: an error or a clean
  end) or selects \<^verbatim>\<open>item\<close>; the second part (lines 100-134) is \<open>dispatch_v1\<close>.
\<close>

definition select_v1 :: "world \<Rightarrow> (error + outcome) + (string list \<times> int \<times> cand_v1)" where
  "select_v1 W =
     (let values = valuesGet (sheet W) (Some 10000)
      in if length values < 2 then Inl (Inr NoRows)
         else
           (let headers = map trim (hd values);
                rows = tl values;
                col = (\<lambda>name. findIndex (\<lambda>h. lowerCase W h = lowerCase W name) headers);
                idxPublishDate = col ''Publish Date'';
                idxTimeUtc = col ''Time (UTC)'';
                idxPostText = col ''Post Text'';
                idxStatus = col ''Status'';
                idxId = col ''id''
            in if list_ex (\<lambda>i. i = -1) [idxPublishDate, idxTimeUtc, idxPostText, idxStatus, idxId]
               then Inl (Inl MissingRequiredColumns)
               else
                 (case candidates_v1 W idxPublishDate idxTimeUtc idxStatus idxId rows of
                    [] \<Rightarrow> Inl (Inr NothingDue)
                  | item # _ \<Rightarrow> Inr (headers, idxPostText, item))))"

definition main_v1 :: "world \<Rightarrow> (error + outcome) \<times> call list" where
  "main_v1 W =
     (let fetch = ValuesGet (Range (tabName W) ''A'' (Some 1) ''Z'' (Some 10000))
      in case select_v1 W of
           Inl res \<Rightarrow> (res, [fetch])
         | Inr sel \<Rightarrow> dispatch_v1 W (fst sel) (fst (snd sel)) fetch (snd (snd sel)))"

subsection \<open>Version 3 (lines 300-633)\<close>

text \<open>
  \<^verbatim>\<open>String.prototype.split\<close> at a one-character separator and \<^verbatim>\<open>padStart(2, "0")\<close>.
\<close>

fun splitOn :: "char \<Rightarrow> string \<Rightarrow> string list" where
  "splitOn sep [] = [[]]"
| "splitOn sep (c # cs) =
     (if c = sep then [] # splitOn sep cs
      else (case splitOn sep cs of [] \<Rightarrow> [[c]] | p # ps \<Rightarrow> (c # p) # ps))"

definition padStart2 :: "string \<Rightarrow> string" where
  "padStart2 s = replicate (2 - jsLength s) (CHR ''0'') @ s"

text \<open>
  \<^verbatim>\<open>safeSheetTab\<close> (lines 325-336): the tab name, quoted when it has a character that is
  not a letter, a digit or an underscore.
\<close>

definition wordChar :: "char \<Rightarrow> bool" where
  "wordChar c \<longleftrightarrow>
     c \<in> set ''ABCDEFGHIJKLMNOPQRSTUVWXYZabcdefghijklmnopqrstuvwxyz0123456789_''"

definition safeSheetTab :: "string \<Rightarrow> error + string" where
  "safeSheetTab tab =
     (let raw = trim tab
      in if raw = [] then Inl (MissingEnv ''GOOGLE_SHEET_TAB'')
         else if list_ex (\<lambda>c. \<not> wordChar c) raw
         then Inr ([CHR 0x27]
                   @ concat (map (\<lambda>c. if c = CHR 0x27 then [CHR 0x27, CHR 0x27] else [c]) raw)
                   @ [CHR 0x27])
         else Inr raw)"

text \<open>
  \<^verbatim>\<open>parseSheet\<close> (lines 349-366): the header and one object for every data row, keyed by
  the header cells (a later column of the same name overwrites an earlier one), with the
  row number. (A header cell that reads \<^verbatim>\<open>__rowIndex1\<close> is outside the model.)
\<close>

record item_v3 =
  it_fields :: "(string \<times> string) list"
  it_rowIndex1 :: nat

definition rowObject :: "string list \<Rightarrow> string list \<Rightarrow> (string \<times> string) list" where
  "rowObject header row =
     foldl (\<lambda>obj c. AList.update (header ! c) (orEmpty (elemAt row (int c))) obj) []
       [0..<length header]"

definition parseSheet :: "string list list \<Rightarrow> string list \<times> item_v3 list" where
  "parseSheet rows =
     (if length rows < 2 then ([], [])
      else (let header = map trim (hd rows)
            in (header,
                map (\<lambda>r. \<lparr>it_fields = rowObject header (rows ! r), it_rowIndex1 = r + 1\<rparr>)
                  [1..<length rows])))"

text \<open>\<^verbatim>\<open>findHeaderIndex\<close> (lines 368-371).\<close>

definition findHeaderIndex :: "world \<Rightarrow> string list \<Rightarrow> string \<Rightarrow> int" where
  "findHeaderIndex W header name =
     (let idx = findIndex (\<lambda>h. lowerCase W h = lowerCase W name) header
      in if 0 \<le> idx then idx else -1)"

text \<open>\<^verbatim>\<open>toIsoUtcFromColumns\<close> (lines 373-391), \<open>None\<close> where the code returns \<^verbatim>\<open>null\<close>.\<close>

definition toIsoUtcFromColumns :: "string option \<Rightarrow> string option \<Rightarrow> string option" where
  "toIsoUtcFromColumns publishDate timeUtc =
     (let d = trim (orEmpty publishDate);
          t = trim (orEmpty timeUtc)
      in if d = [] \<or> t = [] then None
         else (let parts = map trim (splitOn (CHR '':'') t)
               in if length parts < 2 then None
                  else (let hh = padStart2 (parts ! 0);
                            mm = padStart2 (parts ! 1);
                            ss = padStart2 (case elemAt parts 2 of None \<Rightarrow> ''00'' | Some p \<Rightarrow> p)
                        in Some (d @ ''T'' @ hh @ '':'' @ mm @ '':'' @ ss @ ''Z''))))"

text \<open>
  The header look-ups of \<^verbatim>\<open>isDue\<close> and \<^verbatim>\<open>main\<close>: \<^verbatim>\<open>header.find(h => h.toLowerCase() === name)\<close>,
  and \<^verbatim>\<open>key ? item[key] : ""\<close> (a key that was found is a header cell, and it is taken when
  it is not the empty text).
\<close>

definition headerKey :: "world \<Rightarrow> string list \<Rightarrow> string \<Rightarrow> string option" where
  "headerKey W header name = find_first (\<lambda>h. lowerCase W h = name) header"

definition timeKey_v3 :: "world \<Rightarrow> string list \<Rightarrow> string option" where
  "timeKey_v3 W header =
     (case headerKey W header ''time (utc)'' of
        Some k \<Rightarrow> if k \<noteq> [] then Some k else headerKey W header ''time utc''
      | None \<Rightarrow> headerKey W header ''time utc'')"

definition field_v3 :: "item_v3 \<Rightarrow> string option \<Rightarrow> string option" where
  "field_v3 item key =
     (case key of None \<Rightarrow> Some []
      | Some k \<Rightarrow> if k \<noteq> [] then map_of (it_fields item) k else Some [])"

text \<open>\<^verbatim>\<open>isDue\<close> (lines 397-417).\<close>

definition isDue :: "world \<Rightarrow> item_v3 \<Rightarrow> string list \<Rightarrow> bool" where
  "isDue W item header =
     (let publishDate = field_v3 item (headerKey W header ''publish date'');
          timeUtc = field_v3 item (timeKey_v3 W header);
          status = trim (orEmpty (field_v3 item (headerKey W header ''status'')));
          postText = trim (orEmpty (field_v3 item (headerKey W header ''post text'')))
      in if postText = [] then False
         else if lowerCase W status \<noteq> ''pending'' then False
         else (case toIsoUtcFromColumns publishDate timeUtc of
                 None \<Rightarrow> False
               | Some isoText \<Rightarrow>
                   (case dateParse W isoText of None \<Rightarrow> False | Some scheduled \<Rightarrow> scheduled \<le> nowMs W)))"

text \<open>\<^verbatim>\<open>postToX\<close> (lines 472-506): the parsed body, or the error thrown.\<close>

definition postToX_v3 :: "world \<Rightarrow> string \<Rightarrow> error + json" where
  "postToX_v3 W txt =
     (let res = httpPost W txt
      in if \<not> ok res then Inl (PostRejected (httpStatus res) (bodyText res))
         else (case bodyJson res of None \<Rightarrow> Inl JsonSyntaxError | Some j \<Rightarrow> Inr j))"

text \<open>\<^verbatim>\<open>updateRow\<close> (lines 521-544): the row is written from the object read at the start.\<close>

definition setCell_v3 :: "world \<Rightarrow> string list \<Rightarrow> string list \<Rightarrow> string \<times> string \<Rightarrow> string list" where
  "setCell_v3 W header outRow kv =
     (let idx = findHeaderIndex W header (fst kv)
      in if 0 \<le> idx then outRow[nat idx := snd kv] else outRow)"

definition updateRow_v3 ::
  "world \<Rightarrow> string \<Rightarrow> string list \<Rightarrow> item_v3 \<Rightarrow> (string \<times> string) list \<Rightarrow> call" where
  "updateRow_v3 W quotedTab header item updates =
     ValuesUpdate
       (Range quotedTab ''A'' (Some (it_rowIndex1 item)) ''Z'' (Some (it_rowIndex1 item)))
       (foldl (setCell_v3 W header)
          (map (\<lambda>h. orEmpty (map_of (it_fields item) h)) header) updates)"

text \<open>
  \<^verbatim>\<open>main\<close> (lines 546-627). The pairs \<^verbatim>\<open>{ it, iso }\<close> are sorted by the time value of
  \<^verbatim>\<open>new Date(iso)\<close>; a difference with an invalid date is \<open>NaN\<close>.
\<close>

definition iso_v3 :: "world \<Rightarrow> string list \<Rightarrow> item_v3 \<Rightarrow> string option" where
  "iso_v3 W header it =
     toIsoUtcFromColumns (field_v3 it (headerKey W header ''publish date''))
       (field_v3 it (timeKey_v3 W header))"

definition compare_v3 :: "world \<Rightarrow> item_v3 \<times> string option \<Rightarrow> item_v3 \<times> string option \<Rightarrow> number" where
  "compare_v3 W a b =
     (case (Option.bind (snd a) (dateParse W), Option.bind (snd b) (dateParse W)) of
        (Some x, Some y) \<Rightarrow> Num (of_int (x - y))
      | _ \<Rightarrow> NaN)"

definition due_v3 :: "world \<Rightarrow> string list \<Rightarrow> item_v3 list \<Rightarrow> (item_v3 \<times> string option) list" where
  "due_v3 W header items =
     arraySort W (compare_v3 W)
       (filter (\<lambda>p. snd p \<noteq> None \<and> isDue W (fst p) header)
          (map (\<lambda>it. (it, iso_v3 W header it)) items))"

definition dispatch_v3 ::
  "world \<Rightarrow> string \<Rightarrow> string list \<Rightarrow> call \<Rightarrow> item_v3 \<Rightarrow> (error + outcome) \<times> call list" where
  "dispatch_v3 W quotedTab header fetch next =
     (let statusKey = headerKey W header ''status'';
          txt = trim (orEmpty (field_v3 next (headerKey W header ''post text'')));
          imageUrl = trim (orEmpty (field_v3 next (headerKey W header ''image url'')))
      in if txt = [] then (Inr (EmptyTextRow (it_rowIndex1 next)), [fetch])
         else
           (let finalText = (if imageUrl \<noteq> [] then txt @ [CHR 0x0A, CHR 0x0A] @ imageUrl else txt);
                updates = [(''Status'', ''Posted'')]
                  @ (if 0 \<le> findHeaderIndex W header ''Posted At (UTC)''
                     then [(''Posted At (UTC)'', isoNow W)] else [])
            in if dryRun W then
                 (if statusKey \<noteq> None \<and> statusKey \<noteq> Some []
                  then (Inr (WouldPost (it_rowIndex1 next)), [fetch])
                  else (Inr NoStatusColumn, [fetch]))
               else
                 (case postToX_v3 W finalText of
                    Inl e \<Rightarrow> (Inl e, [fetch, TweetsPost finalText])
                  | Inr result \<Rightarrow>
                      (if statusKey \<noteq> None \<and> statusKey \<noteq> Some []
                       then (Inr (PostedRow (it_rowIndex1 next)),
                             [fetch, TweetsPost finalText,
                              updateRow_v3 W quotedTab header next updates])
                       else (Inr NoStatusColumn, [fetch, TweetsPost finalText])))))"

definition select_v3 :: "world \<Rightarrow> (error + outcome) + (string list \<times> item_v3)" where
  "select_v3 W =
     (let parsed = parseSheet (valuesGet (sheet W) None);
          header = fst parsed
      in if header = [] then Inl (Inr NoRows)
         else
           (case due_v3 W header (snd parsed) of
              [] \<Rightarrow> Inl (Inr NothingDue)
            | d # _ \<Rightarrow> Inr (header, fst d)))"

definition main_v3 :: "world \<Rightarrow> (error + outcome) \<times> call list" where
  "main_v3 W =
     (if trim (tabName W) = [] then (Inl (MissingEnv ''GOOGLE_SHEET_TAB''), [])
      else
        (case safeSheetTab (trim (tabName W)) of
           Inl e \<Rightarrow> (Inl e, [])
         | Inr quotedTab \<Rightarrow>
             (let fetch = ValuesGet (Range quotedTab ''A'' None ''Z'' None)
              in case select_v3 W of
                   Inl res \<Rightarrow> (res, [fetch])
                 | Inr sel \<Rightarrow> dispatch_v3 W quotedTab (fst sel) fetch (snd sel))))"

subsection \<open>Version 4 (lines 634-860)\<close>

text \<open>
  \<^verbatim>\<open>String.fromCharCode(n)\<close>: the one code unit \<open>n mod 65536\<close>, as its UTF-8 bytes.
\<close>

definition fromCharCode :: "nat \<Rightarrow> string" where
  "fromCharCode n =
     (let u = n mod 65536
      in if u < 128 then [char_of u]
         else if u < 2048 then [char_of (192 + u div 64), char_of (128 + u mod 64)]
         else [char_of (224 + u div 4096), char_of (128 + (u div 64) mod 64),
               char_of (128 + u mod 64)])"

text \<open>
  \<^verbatim>\<open>parseUtcDateTime\<close> (lines 666-677): \<^verbatim>\<open>:00Z\<close> is always appended, and an invalid date
  is thrown as an error.
\<close>

definition parseUtcDateTime_v4 :: "world \<Rightarrow> string option \<Rightarrow> string option \<Rightarrow> error + int" where
  "parseUtcDateTime_v4 W publishDate timeUtc =
     (let dateStr = trim (template publishDate);
          timeStr = trim (template timeUtc);
          isoText = dateStr @ ''T'' @ timeStr @ '':00Z''
      in case dateParse W isoText of
           None \<Rightarrow> Inl (InvalidDateTime dateStr timeStr isoText)
         | Some dt \<Rightarrow> Inr dt)"

text \<open>\<^verbatim>\<open>fetchRows\<close> (lines 694-709) and \<^verbatim>\<open>headerIndex\<close> (lines 711-715).\<close>

definition fetchRows_v4 :: "world \<Rightarrow> (string list \<times> string list list) \<times> call" where
  "fetchRows_v4 W =
     (let values = valuesGet (sheet W) None
      in (if length values < 2 then ([], []) else (map trim (hd values), tl values),
          ValuesGet (Range (tabName W) ''A'' None ''Z'' None)))"

definition headerIndex :: "world \<Rightarrow> string list \<Rightarrow> string \<Rightarrow> error + int" where
  "headerIndex W headers name =
     (let idx = findIndex (\<lambda>h. lowerCase W h = lowerCase W name) headers
      in if idx = -1 then Inl (MissingColumn name) else Inr idx)"

text \<open>
  \<^verbatim>\<open>updateRow\<close> (lines 717-746). \<^verbatim>\<open>row[idx] = val\<close> behind the end of the array extends it;
  the holes in between are sent as \<^verbatim>\<open>null\<close>, which leaves a cell as it is, and the cells
  behind the end of a fetched row are empty, so a hole is modelled as the empty text.
\<close>

definition setAt :: "string list \<Rightarrow> nat \<Rightarrow> string \<Rightarrow> string list" where
  "setAt xs i v =
     (if i < length xs then xs[i := v] else xs @ replicate (i - length xs) [] @ [v])"

fun assign_v4 :: "world \<Rightarrow> string list \<Rightarrow> string list \<Rightarrow> (string \<times> string) list \<Rightarrow> error + string list" where
  "assign_v4 W headers row [] = Inr row"
| "assign_v4 W headers row ((key, val) # rest) =
     (case headerIndex W headers key of
        Inl e \<Rightarrow> Inl e
      | Inr idx \<Rightarrow> assign_v4 W headers (setAt row (nat idx) val) rest)"

definition updateRow_v4 ::
  "world \<Rightarrow> nat \<Rightarrow> string list \<Rightarrow> (string \<times> string) list \<Rightarrow> error option \<times> call list" where
  "updateRow_v4 W rowNumber1Based headers updatesObj =
     (let fetched = fetchRows_v4 W;
          rows = snd (fst fetched);
          dataIndex = int rowNumber1Based - 2
      in if dataIndex < 0 \<or> int (length rows) \<le> dataIndex
         then (Some (RowOutOfRange rowNumber1Based), [snd fetched])
         else
           (case assign_v4 W headers (rows ! nat dataIndex) updatesObj of
              Inl e \<Rightarrow> (Some e, [snd fetched])
            | Inr row \<Rightarrow>
                (let endCol = fromCharCode (nat (65 + min (int (length headers) - 1) 25))
                 in (None,
                     [snd fetched,
                      ValuesUpdate
                        (Range (tabName W) ''A'' (Some rowNumber1Based) endCol (Some rowNumber1Based))
                        (take (length headers) row)]))))"

text \<open>\<^verbatim>\<open>postToX\<close> (lines 758-791): the tweet id, or the error thrown.\<close>

definition postToX_v4 :: "world \<Rightarrow> string \<Rightarrow> error + json" where
  "postToX_v4 W statusText =
     (let resp = httpPost W statusText;
          parsed = parsedOrEmpty resp
      in if \<not> ok resp then Inl (PostRejected (httpStatus resp) (stringify W parsed))
         else (let tweetId = getMember (getMember (Some parsed) ''data'') ''id''
               in case tweetId of
                    None \<Rightarrow> Inl PostSucceededWithoutId
                  | Some v \<Rightarrow> if truthy (Some v) then Inr v else Inl PostSucceededWithoutId))"

text \<open>\<^verbatim>\<open>main\<close> (lines 793-855); the loop of lines 815-833 is \<open>pick_v4\<close>.\<close>

record picked_v4 =
  p_r :: nat
  p_rowNumber :: nat
  p_postText :: string
  p_scheduled :: int

fun pick_v4 ::
  "world \<Rightarrow> int \<Rightarrow> int \<Rightarrow> int \<Rightarrow> int \<Rightarrow> nat \<Rightarrow> string list list \<Rightarrow> error + picked_v4 option" where
  "pick_v4 W iPublishDate iTimeUtc iPostText iStatus r [] = Inr None"
| "pick_v4 W iPublishDate iTimeUtc iPostText iStatus r (row # rows) =
     (if lowerCase W (trim (orEmpty (elemAt row iStatus))) \<noteq> ''pending''
      then pick_v4 W iPublishDate iTimeUtc iPostText iStatus (r + 1) rows
      else if trim (orEmpty (elemAt row iPostText)) = []
      then pick_v4 W iPublishDate iTimeUtc iPostText iStatus (r + 1) rows
      else
        (case parseUtcDateTime_v4 W (elemAt row iPublishDate) (elemAt row iTimeUtc) of
           Inl e \<Rightarrow> Inl e
         | Inr scheduled \<Rightarrow>
             if scheduled \<le> nowMs W
             then Inr (Some \<lparr>p_r = r, p_rowNumber = r + 2,
                              p_postText = trim (orEmpty (elemAt row iPostText)),
                              p_scheduled = scheduled\<rparr>)
             else pick_v4 W iPublishDate iTimeUtc iPostText iStatus (r + 1) rows))"

definition dispatch_v4 ::
  "world \<Rightarrow> string list \<Rightarrow> call \<Rightarrow> picked_v4 \<Rightarrow> (error + outcome) \<times> call list" where
  "dispatch_v4 W headers fetch picked =
     (case postToX_v4 W (p_postText picked) of
        Inl e \<Rightarrow> (Inl e, [fetch, TweetsPost (p_postText picked)])
      | Inr tweetId \<Rightarrow>
          (let updates = [(''Status'', ''Posted'')]
                 @ (if findIndex (\<lambda>h. lowerCase W h = ''tweet_id'') headers \<noteq> -1
                    then [(''tweet_id'', String_json W tweetId)] else [])
                 @ (if findIndex (\<lambda>h. lowerCase W h = ''posted_at'') headers \<noteq> -1
                    then [(''posted_at'', isoNow W)] else []);
               upd = updateRow_v4 W (p_rowNumber picked) headers updates
           in (case fst upd of
                 Some e \<Rightarrow> Inl e
               | None \<Rightarrow> Inr (PostedRow (p_rowNumber picked)),
               fetch # TweetsPost (p_postText picked) # snd upd)))"

definition select_v4 :: "world \<Rightarrow> (error + outcome) + (string list \<times> picked_v4)" where
  "select_v4 W =
     (let fetched = fetchRows_v4 W;
          headers = fst (fst fetched);
          rows = snd (fst fetched)
      in if headers = [] then Inl (Inr NoRows)
         else
           (case headerIndex W headers ''Publish Date'' of Inl e \<Rightarrow> Inl (Inl e)
            | Inr iPublishDate \<Rightarrow>
           (case headerIndex W headers ''Time (UTC)'' of Inl e \<Rightarrow> Inl (Inl e)
            | Inr iTimeUtc \<Rightarrow>
           (case headerIndex W headers ''Post Text'' of Inl e \<Rightarrow> Inl (Inl e)
            | Inr iPostText \<Rightarrow>
           (case headerIndex W headers ''Status'' of Inl e \<Rightarrow> Inl (Inl e)
            | Inr iStatus \<Rightarrow>
           (case pick_v4 W iPublishDate iTimeUtc iPostText iStatus 0 rows of
              Inl e \<Rightarrow> Inl (Inl e)
            | Inr None \<Rightarrow> Inl (Inr NothingDue)
            | Inr (Some picked) \<Rightarrow> Inr (headers, picked)))))))"

definition main_v4 :: "world \<Rightarrow> (error + outcome) \<times> call list" where
  "main_v4 W =
     (let fetch = snd (fetchRows_v4 W)
      in case select_v4 W of
           Inl res \<Rightarrow> (res, [fetch])
         | Inr sel \<Rightarrow> dispatch_v4 W (fst sel) fetch (snd sel))"

subsection \<open>Version 5 (lines 861-1147)\<close>

text \<open>\<^verbatim>\<open>quoteSheetName\<close> (lines 872-875).\<close>

definition quoteSheetName :: "string \<Rightarrow> string" where
  "quoteSheetName name =
     [CHR 0x27] @ concat (map (\<lambda>c. if c = CHR 0x27 then [CHR 0x27, CHR 0x27] else [c]) name)
     @ [CHR 0x27]"

text \<open>
  The row objects of \<^verbatim>\<open>fetchRowsAndHeaders\<close> (lines 986-1014), keyed by the header cells,
  with the row number \<^verbatim>\<open>__rowIndex\<close>. \<^verbatim>\<open>parseUtcDueDate\<close> (lines 888-905) reads the keys
  \<^verbatim>\<open>Publish Date\<close> and \<^verbatim>\<open>Time (UTC)\<close> as they are written.
\<close>

record row_v5 =
  rw_fields :: "(string \<times> string) list"
  rw_rowIndex :: nat

definition parseUtcDueDate :: "world \<Rightarrow> row_v5 \<Rightarrow> int option" where
  "parseUtcDueDate W row =
     (let d = trim (orEmpty (map_of (rw_fields row) ''Publish Date''));
          t = trim (orEmpty (map_of (rw_fields row) ''Time (UTC)''))
      in if d = [] \<or> t = [] then None
         else (let time = (if jsLength t = 5 then t @ '':00'' else t)
               in dateParse W (d @ ''T'' @ time @ ''Z'')))"

definition fetchRowsAndHeaders :: "world \<Rightarrow> error + (string list \<times> row_v5 list) \<times> call" where
  "fetchRowsAndHeaders W =
     (let tab = trim (trim (tabName W))
      in if trim (tabName W) = [] then Inl (MissingEnv ''GOOGLE_SHEET_TAB'')
         else if tab \<notin> set (filter (\<lambda>t. t \<noteq> []) (tabTitles W)) then Inl TabNotFound
         else
           (let values = valuesGet (sheet W) None;
                fetch = ValuesGet (Range (quoteSheetName tab) ''A'' None ''Z'' None)
            in if length values < 2 then Inr (([], []), fetch)
               else
                 (let headers = map trim (hd values)
                  in Inr ((headers,
                           map (\<lambda>idx. \<lparr>rw_fields = rowObject headers (tl values ! idx),
                                        rw_rowIndex = idx + 2\<rparr>)
                             [0..<length (tl values)]),
                          fetch))))"

text \<open>
  \<^verbatim>\<open>updateRowByHeader\<close> (lines 1016-1039): one single-cell range for every named column
  that \<^verbatim>\<open>headers.indexOf\<close> finds, and no request when there is none.
\<close>

definition indexOf :: "string list \<Rightarrow> string \<Rightarrow> int" where
  "indexOf headers name = findIndex (\<lambda>h. h = name) headers"

definition data_v5 ::
  "string \<Rightarrow> string list \<Rightarrow> nat \<Rightarrow> (string \<times> string) list \<Rightarrow> (range \<times> string) list" where
  "data_v5 tab headers rowIndex updates =
     concat (map (\<lambda>kv.
        (let colIdx = indexOf headers (fst kv)
         in if colIdx = -1 then []
            else (let colLetter = fromCharCode (65 + nat colIdx)
                  in [(Range (quoteSheetName tab) colLetter (Some rowIndex) colLetter (Some rowIndex),
                       snd kv)]))) updates)"

definition updateRowByHeader ::
  "string \<Rightarrow> string list \<Rightarrow> nat \<Rightarrow> (string \<times> string) list \<Rightarrow> call list" where
  "updateRowByHeader tab headers rowIndex updates =
     (let d = data_v5 tab headers rowIndex updates
      in if d = [] then [] else [ValuesBatchUpdate d])"

text \<open>
  \<^verbatim>\<open>postToX\<close> (lines 1042-1080): the tweet id, or the error thrown.
  \<open>failureMessage_v5\<close> is the text of \<^verbatim>\<open>body?.detail || body?.title || JSON.stringify(body)\<close>
  in the message of the error.
\<close>

definition failureMessage_v5 :: "world \<Rightarrow> json \<Rightarrow> string" where
  "failureMessage_v5 W body =
     (if truthy (getMember (Some body) ''detail'')
      then orEmptyText W (getMember (Some body) ''detail'')
      else if truthy (getMember (Some body) ''title'')
      then orEmptyText W (getMember (Some body) ''title'')
      else stringify W body)"

definition postToX_v5 :: "world \<Rightarrow> string \<Rightarrow> error + json" where
  "postToX_v5 W txt =
     (let resp = httpPost W txt;
          body = parsedOrEmpty resp
      in if \<not> ok resp then Inl (PostRejected (httpStatus resp) (failureMessage_v5 W body))
         else (let tweetId = getMember (getMember (Some body) ''data'') ''id''
               in case tweetId of
                    None \<Rightarrow> Inl PostSucceededWithoutId
                  | Some v \<Rightarrow> if truthy (Some v) then Inr v else Inl PostSucceededWithoutId))"

text \<open>
  \<^verbatim>\<open>main\<close> (lines 1083-1145). The candidates are the pairs \<^verbatim>\<open>{ r, due }\<close>; after the
  filter both dates of a comparison are valid.
\<close>

definition compare_v5 :: "row_v5 \<times> int option \<Rightarrow> row_v5 \<times> int option \<Rightarrow> number" where
  "compare_v5 a b =
     (case (snd a, snd b) of (Some x, Some y) \<Rightarrow> Num (of_int (x - y)) | _ \<Rightarrow> NaN)"

definition keep_v5 :: "world \<Rightarrow> row_v5 \<times> int option \<Rightarrow> bool" where
  "keep_v5 W p =
     (trim (orEmpty (map_of (rw_fields (fst p)) ''Post Text'')) \<noteq> []
      \<and> (case snd p of None \<Rightarrow> False | Some due \<Rightarrow> due \<le> nowMs W))"

definition dueRows_v5 :: "world \<Rightarrow> row_v5 list \<Rightarrow> (row_v5 \<times> int option) list" where
  "dueRows_v5 W rows =
     filter (keep_v5 W)
       (map (\<lambda>r. (r, parseUtcDueDate W r))
          (filter (\<lambda>r. lowerCase W (trim (orEmpty (map_of (rw_fields r) ''Status''))) = ''pending'')
             rows))"

definition candidates_v5 :: "world \<Rightarrow> row_v5 list \<Rightarrow> (row_v5 \<times> int option) list" where
  "candidates_v5 W rows = arraySort W compare_v5 (dueRows_v5 W rows)"

definition dispatch_v5 ::
  "world \<Rightarrow> string list \<Rightarrow> call \<Rightarrow> row_v5 \<Rightarrow> (error + outcome) \<times> call list" where
  "dispatch_v5 W headers fetch chosen =
     (let txt = trim (template (map_of (rw_fields chosen) ''Post Text''))
      in case postToX_v5 W txt of
           Inl e \<Rightarrow> (Inl e, [fetch, TweetsPost txt])
         | Inr tweetId \<Rightarrow>
             (Inr (PostedRow (rw_rowIndex chosen)),
              fetch # TweetsPost txt #
                updateRowByHeader (trim (trim (tabName W))) headers (rw_rowIndex chosen)
                  [(''Status'', ''Posted''), (''Tweet ID'', String_json W tweetId),
                   (''Posted At (UTC)'', isoNow W)]))"

definition select_v5 :: "world \<Rightarrow> row_v5 list \<Rightarrow> (error + outcome) + row_v5" where
  "select_v5 W rows =
     (if rows = [] then Inl (Inr NoRows)
      else
        (case candidates_v5 W rows of
           [] \<Rightarrow> Inl (Inr NothingDue)
         | c # _ \<Rightarrow> Inr (fst c)))"

definition main_v5 :: "world \<Rightarrow> (error + outcome) \<times> call list" where
  "main_v5 W =
     (case fetchRowsAndHeaders W of
        Inl e \<Rightarrow> (Inl e, [])
      | Inr fetched \<Rightarrow>
          (case select_v5 W (snd (fst fetched)) of
             Inl res \<Rightarrow> (res, [snd fetched])
           | Inr chosen \<Rightarrow> dispatch_v5 W (fst (fst fetched)) (snd fetched) chosen))"

subsection \<open>The signature base string\<close>

text \<open>
  \<^verbatim>\<open>Array.prototype.join\<close>, and an object as the list of its entries in insertion order:
  an assignment to a key that exists replaces the value in place (\<open>AList.update\<close>), and
  \<^verbatim>\<open>{ ...a, ...b }\<close> assigns the entries of \<open>b\<close> to a copy of \<open>a\<close>.
\<close>

fun join :: "string \<Rightarrow> string list \<Rightarrow> string" where
  "join sep [] = []"
| "join sep [x] = x"
| "join sep (x # y # zs) = x @ sep @ join sep (y # zs)"

definition assign :: "(string \<times> string) list \<Rightarrow> (string \<times> string) list \<Rightarrow> (string \<times> string) list" where
  "assign obj entries = foldl (\<lambda>obj kv. AList.update (fst kv) (snd kv) obj) obj entries"

text \<open>
  The result of \<^verbatim>\<open>new URL(url)\<close>, as far as \<^verbatim>\<open>buildOAuth1Header\<close> reads it: \<^verbatim>\<open>origin\<close>,
  \<^verbatim>\<open>pathname\<close> and the entries of \<^verbatim>\<open>searchParams\<close> in their order.
\<close>

record parsedUrl =
  u_origin :: string
  u_pathname :: string
  u_searchParams :: "(string \<times> string) list"

text \<open>
  The OAuth parameters of \<^verbatim>\<open>buildOAuth1Header\<close> (v3, lines 428-436) and \<^verbatim>\<open>oauth1Header\<close>
  (v5, lines 920-927); the nonce and the timestamp are drawn by the caller. v3 adds
  \<^verbatim>\<open>extraParams\<close>.
\<close>

definition oauthParams :: "string \<Rightarrow> string \<Rightarrow> string \<Rightarrow> string \<Rightarrow> (string \<times> string) list" where
  "oauthParams consumerKey nonce timestamp token =
     [(''oauth_consumer_key'', consumerKey), (''oauth_nonce'', nonce),
      (''oauth_signature_method'', ''HMAC-SHA1''), (''oauth_timestamp'', timestamp),
      (''oauth_token'', token), (''oauth_version'', ''1.0'')]"

text \<open>
  \<^verbatim>\<open>buildQueryString\<close> (v5, lines 912-917), which is also the expression \<^verbatim>\<open>paramPairs\<close> of
  v3 (lines 448-451): the keys sorted by \<^verbatim>\<open>Array.prototype.sort()\<close> (the order of the code
  units, which on text of the Basic Multilingual Plane is the order of the UTF-8 bytes).
\<close>

definition buildQueryString :: "(string \<times> string) list \<Rightarrow> string" where
  "buildQueryString params =
     join ''&'' (map (\<lambda>k. percentEncode k @ ''='' @ percentEncode (template (map_of params k)))
                    (sort (map fst params)))"

text \<open>
  The base string of \<^verbatim>\<open>buildOAuth1Header\<close> (v3, lines 439-457). The query parameters are
  assigned one by one to an object literal, \<^verbatim>\<open>queryParams[key] = value\<close>: a later value
  replaces an earlier one of the same name, and the name \<^verbatim>\<open>__proto__\<close> creates no property
  (the assignment reaches the setter of \<^verbatim>\<open>Object.prototype\<close>, which ignores a text).
\<close>

definition baseString_v3 :: "world \<Rightarrow> string \<Rightarrow> parsedUrl \<Rightarrow> (string \<times> string) list \<Rightarrow> string" where
  "baseString_v3 W method u oauth =
     (let baseUrl = u_origin u @ u_pathname u;
          queryParams = assign [] (filter (\<lambda>kv. fst kv \<noteq> ''__proto__'') (u_searchParams u));
          allParams = assign queryParams oauth
      in join ''&'' [upperCase W method, percentEncode baseUrl,
                     percentEncode (buildQueryString allParams)])"

text \<open>The base string of \<^verbatim>\<open>oauth1Header\<close> (v5, lines 931-938): the URL as it is given.\<close>

definition baseString_v5 :: "world \<Rightarrow> string \<Rightarrow> string \<Rightarrow> (string \<times> string) list \<Rightarrow> string" where
  "baseString_v5 W method url oauth =
     join ''&'' [upperCase W method, percentEncode url,
                 percentEncode (buildQueryString (assign [] oauth))]"

text \<open>
  The base string as the specification words it: the upper-cased method, the
  percent-encoded base URL, and the percent-encoding of the parameters (signing
  parameters united with the query parameters, as a set of name-value pairs), sorted,
  each written \<^verbatim>\<open>name=value\<close> with name and value percent-encoded, and joined by \<^verbatim>\<open>&\<close>.
\<close>

definition spec_baseString ::
  "world \<Rightarrow> string \<Rightarrow> string \<Rightarrow> (string \<times> string) list \<Rightarrow> (string \<times> string) list \<Rightarrow> string" where
  "spec_baseString W method baseUrl signing query =
     join ''&''
       [upperCase W method, rfc3986_encode baseUrl,
        rfc3986_encode
          (join ''&'' (map (\<lambda>p. rfc3986_encode (fst p) @ ''='' @ rfc3986_encode (snd p))
                         (sorted_list_of_set (set signing \<union> set query))))]"

subsection \<open>Columns in A1 notation\<close>

text \<open>
  The column a text of letters names in A1 notation (\<open>A\<close> is column 0, \<open>Z\<close> column 25,
  \<open>AA\<close> column 26), in either case; \<open>None\<close> for a text that names no column.
\<close>

definition letterIndex :: "char \<Rightarrow> nat option" where
  "letterIndex c = map_of (zip ''ABCDEFGHIJKLMNOPQRSTUVWXYZ'' [0..<26]) (upperChar c)"

fun a1Digits :: "nat \<Rightarrow> string \<Rightarrow> nat option" where
  "a1Digits acc [] = Some acc"
| "a1Digits acc (c # cs) =
     (case letterIndex c of None \<Rightarrow> None | Some v \<Rightarrow> a1Digits (acc * 26 + v + 1) cs)"

definition a1Column :: "string \<Rightarrow> nat option" where
  "a1Column s = (if s = [] then None else map_option (\<lambda>n. n - 1) (a1Digits 0 s))"

definition withinAZ :: "string \<Rightarrow> bool" where
  "withinAZ col = (case a1Column col of None \<Rightarrow> True | Some k \<Rightarrow> k < 26)"

fun rangeWithinAZ :: "range \<Rightarrow> bool" where
  "rangeWithinAZ (Range tab c1 r1 c2 r2) = (withinAZ c1 \<and> withinAZ c2)"

fun callWithinAZ :: "call \<Rightarrow> bool" where
  "callWithinAZ (ValuesGet rg) = rangeWithinAZ rg"
| "callWithinAZ (ValuesUpdate rg cells) = rangeWithinAZ rg"
| "callWithinAZ (ValuesBatchUpdate d) = list_all (\<lambda>p. rangeWithinAZ (fst p)) d"
| "callWithinAZ (TweetsPost t) = True"

subsection \<open>The order of the candidates\<close>

text \<open>
  The value of a number that is not \<open>NaN\<close>. The comparator of v1 is consistent on a list
  when rows of equal instant have ids that are all numbers or all \<open>NaN\<close>; then the pair of
  instant and id value is the key it sorts by.
\<close>

fun numberValue :: "number \<Rightarrow> rat" where
  "numberValue (Num q) = q"
| "numberValue NaN = 0"

definition consistentIds :: "cand_v1 list \<Rightarrow> bool" where
  "consistentIds xs \<longleftrightarrow>
     list_all (\<lambda>a. list_all (\<lambda>b. dtValue (c_dt a) = dtValue (c_dt b) \<longrightarrow>
                                  (c_id a = NaN) = (c_id b = NaN)) xs) xs"

definition key_v1 :: "cand_v1 \<Rightarrow> int \<times> rat" where
  "key_v1 x = (dtValue (c_dt x), numberValue (c_id x))"

subsection \<open>An example world\<close>

text \<open>
  A sheet with three pending rows. Rows 2 and 3 are scheduled at the same instant, with
  the ids 2 and 1 in this order; row 4 is scheduled a day later. The clock stands between
  the two instants. The posting endpoint answers 201 with the id 777. The tables of the
  built-ins hold the texts and values of the examples: \<open>exDates\<close> the instants of the dates,
  \<open>exNumber\<close> the numbers of the ids, \<open>exStringify\<close> the JSON texts of the answers (texts
  with \<open>dq\<close>, the double quote); the text is ASCII, where \<open>asciiLowerCase\<close> and
  \<open>toUpperCase\<close> are the built-ins, and no comparison of the examples is inconsistent, so
  \<open>sortOrder\<close> is not consulted; nor is \<open>jsString\<close>, since every id of the answers is text.
\<close>

definition exDates :: "string \<Rightarrow> int option" where
  "exDates = map_of [(''2026-01-31T10:00:00Z'', 1769853600000),
                     (''2026-02-01T10:00:00Z'', 1769940000000)]"

definition exNumber :: "string \<Rightarrow> number" where
  "exNumber s = (case map_of [(''1'', Num 1), (''2'', Num 2), (''3'', Num 3), (''7'', Num 7),
                                ([], Num 0)] s of
                   Some n \<Rightarrow> n | None \<Rightarrow> NaN)"

definition dq :: string where
  "dq = [CHR 0x22]"

definition exCreated :: json where
  "exCreated = JObj [(''data'', JObj [(''id'', JStr ''777'')])]"

definition exCreatedText :: string where
  "exCreatedText = ''{'' @ dq @ ''data'' @ dq @ '':{'' @ dq @ ''id'' @ dq @ '':'' @ dq @ ''777'' @ dq @ ''}}''"

definition exUnauthorized :: json where
  "exUnauthorized =
     JObj [(''title'', JStr ''Unauthorized''), (''type'', JStr ''about:blank''),
           (''status'', JNum 401), (''detail'', JStr ''Unauthorized'')]"

definition exUnauthorizedText :: string where
  "exUnauthorizedText =
     ''{'' @ dq @ ''title'' @ dq @ '':'' @ dq @ ''Unauthorized'' @ dq @ '',''
       @ dq @ ''type'' @ dq @ '':'' @ dq @ ''about:blank'' @ dq @ '',''
       @ dq @ ''status'' @ dq @ '':401,''
       @ dq @ ''detail'' @ dq @ '':'' @ dq @ ''Unauthorized'' @ dq @ ''}''"

definition exStringify :: "json \<Rightarrow> string" where
  "exStringify j =
     (case map_of [(exCreated, exCreatedText), (exUnauthorized, exUnauthorizedText)] j of
        Some t \<Rightarrow> t | None \<Rightarrow> ''{}'')"

definition exHeader :: "string list" where
  "exHeader = [''id'', ''Publish Date'', ''Time (UTC)'', ''Post Text'', ''Status'', ''Tweet ID'']"

definition exSheet :: "string list list" where
  "exSheet =
     [exHeader,
      [''2'', ''2026-01-31'', ''10:00'', ''second'', ''Pending''],
      [''1'', ''2026-01-31'', ''10:00:00'', ''first'', '' pending ''],
      [''3'', ''2026-02-01'', ''10:00'', ''later'', ''Pending'']]"

definition exWorld :: world where
  "exWorld =
     \<lparr>dateParse = exDates, toNumber = exNumber,
      lowerCase = asciiLowerCase, upperCase = toUpperCase, sortOrder = (\<lambda>m. []),
      stringify = exStringify, jsString = (\<lambda>j. ''[object Object]''),
      nowMs = 1769900000000, isoNow = ''2026-01-31T22:53:20.000Z'',
      tabName = ''Posts'', tabTitles = [''Posts''], dryRun = False,
      sheet = exSheet,
      tweetV2 = (\<lambda>t. Inr exCreated),
      httpPost = (\<lambda>t. \<lparr>httpStatus = 201, bodyText = exCreatedText,
                          bodyJson = Some exCreated\<rparr>)\<rparr>"



definition exLogHeader :: "string list" where
  "exLogHeader =
     [''id'', ''Publish Date'', ''Time (UTC)'', ''Post Text'', ''Status'', ''Posted At'', ''Note'']"

definition exBlankRow :: "string list" where
  "exBlankRow =
     [''7'', ''2026-01-31'', ''10:00'', [CHR 0x20, CHR 0xC2, CHR 0xA0], ''Pending'', [], ''keep'']"

definition exEmptyText :: world where
  "exEmptyText = exWorld\<lparr>sheet := [exLogHeader, exBlankRow]\<rparr>"

definition exBadRow :: "string list" where
  "exBadRow = [''7'', ''2026-13-45'', ''10:00'', ''hello'', ''Pending'']"

definition exBadDate :: world where
  "exBadDate = exWorld\<lparr>sheet := [exHeader, exBadRow]\<rparr>"

definition exLaterThenBad :: world where
  "exLaterThenBad = exWorld\<lparr>sheet := [exHeader, exSheet ! 3, exBadRow]\<rparr>"

definition exDueThenBad :: world where
  "exDueThenBad = exWorld\<lparr>sheet := [exHeader, exSheet ! 1, exBadRow]\<rparr>"

text \<open>The row objects of the example sheet, as versions 3 and 5 build them.\<close>

definition exFields :: "nat \<Rightarrow> (string \<times> string) list" where
  "exFields n = zip exHeader (exSheet ! n @ [[]])"

section \<open>Properties\<close>

subsection \<open>Percent-encoding\<close>

lemma hexdigit_not_special:
  assumes "k < 16"
  shows "''0123456789ABCDEF'' ! k \<notin> set (''!'' @ [CHR 0x27] @ ''()*'')"
proof -
  have "\<forall>k\<in>set [0..<16]. ''0123456789ABCDEF'' ! k \<notin> set (''!'' @ [CHR 0x27] @ ''()*'')"
    by code_simp
  with assms show ?thesis by simp
qed

lemma of_char_div16: "(of_char (c::char) :: nat) div 16 < 16"
proof -
  have "(of_char c :: nat) < 256" by simp
  then show ?thesis by arith
qed

lemma percentEncode_char:
  "percentEncode [c] = (if unreserved c then [c] else CHR ''%'' # hexOctet c)"
proof (cases "c \<in> set (''!'' @ [CHR 0x27] @ ''()*'')")
  case True
  then show ?thesis
    by (auto simp: percentEncode_def encodeURIComponent_def uriUnescaped_def unreserved_def
        hexOctet_def toUpperCase_def upperChar_def)
next
  case False
  show ?thesis
  proof (cases "uriUnescaped c")
    case True
    with False show ?thesis
      by (auto simp: percentEncode_def encodeURIComponent_def uriUnescaped_def unreserved_def)
  next
    case un: False
    have u: "\<not> unreserved c"
      using un by (auto simp: uriUnescaped_def unreserved_def)
    have a: "''0123456789ABCDEF'' ! (of_char c div 16) \<notin> set (''!'' @ [CHR 0x27] @ ''()*'')"
      by (rule hexdigit_not_special) (rule of_char_div16)
    have b: "''0123456789ABCDEF'' ! (of_char c mod 16) \<notin> set (''!'' @ [CHR 0x27] @ ''()*'')"
      by (rule hexdigit_not_special) simp
    show ?thesis using un u a b
      by (simp add: percentEncode_def encodeURIComponent_def hexOctet_def)
  qed
qed

lemma percentEncode_append: "percentEncode (s @ t) = percentEncode s @ percentEncode t"
  by (simp add: percentEncode_def encodeURIComponent_def)

lemma percentEncode_Cons: "percentEncode (c # s) = percentEncode [c] @ percentEncode s"
  using percentEncode_append [of "[c]" s] by simp

lemma percentEncode_rfc3986: "percentEncode s = rfc3986_encode s"
proof (induction s)
  case Nil
  show ?case by (simp add: percentEncode_def encodeURIComponent_def rfc3986_encode_def)
next
  case (Cons c s)
  have "rfc3986_encode (c # s) =
      (if unreserved c then [c] else CHR ''%'' # hexOctet c) @ rfc3986_encode s"
    by (simp add: rfc3986_encode_def)
  then show ?case
    using Cons percentEncode_Cons [of c s] percentEncode_char [of c] by simp
qed

text \<open>
  C8. For every input string, \<open>percentEncode\<close> is the RFC 3986 encoding: a byte is left as
  it is exactly when it is a letter, a digit or one of \<^verbatim>\<open>- _ . ~\<close>, and every other byte,
  among them \<^verbatim>\<open>! ' ( ) *\<close>, is replaced by \<^verbatim>\<open>%\<close> and its two upper-case hexadecimal digits.
\<close>

theorem C8_percentEncode_unreserved_only:
  "percentEncode s = rfc3986_encode s
   \<and> (percentEncode [c] = [c]) = unreserved c
   \<and> percentEncode (''!'' @ [CHR 0x27] @ ''()*'') = ''%21%27%28%29%2A''"
proof -
  have "(percentEncode [c] = [c]) = unreserved c"
    by (simp add: percentEncode_char hexOctet_def)
  moreover have "percentEncode (''!'' @ [CHR 0x27] @ ''()*'') = ''%21%27%28%29%2A''"
    by (simp add: percentEncode_rfc3986 rfc3986_encode_def unreserved_def hexOctet_def)
  ultimately show ?thesis
    using percentEncode_rfc3986 [of s] by simp
qed

subsection \<open>Trimming\<close>

lemma tokenLength_Nil: "tokenLength ts [] = 0"
  by (auto simp: tokenLength_def find_Some_iff split: option.splits)

lemma tokenLength_zero:
  assumes "\<And>w. w \<in> set ts \<Longrightarrow> take (length w) s = w \<Longrightarrow> w = []"
  shows "tokenLength ts s = 0"
proof (cases "find (\<lambda>w. take (length w) s = w) ts")
  case None
  then show ?thesis by (simp add: tokenLength_def)
next
  case (Some w)
  then have "w \<in> set ts" "take (length w) s = w"
    by (auto simp: find_Some_iff)
  with assms have "w = []" by blast
  with Some show ?thesis by (simp add: tokenLength_def)
qed

lemma tokenLength_zeroD:
  assumes "tokenLength ts s = 0" "w \<in> set ts" "take (length w) s = w"
  shows "[] \<in> set ts"
proof (cases "find (\<lambda>w. take (length w) s = w) ts")
  case None
  with assms(2,3) show ?thesis by (auto simp: find_None_iff)
next
  case (Some v)
  with assms(1) have "v = []" by (simp add: tokenLength_def)
  moreover from Some have "v \<in> set ts" by (auto simp: find_Some_iff)
  ultimately show ?thesis by simp
qed

lemma strip_stop: "tokenLength ts s = 0 \<Longrightarrow> strip ts s = s"
  by (simp add: strip.simps [of ts s])

lemma strip_step: "tokenLength ts s \<noteq> 0 \<Longrightarrow> strip ts s = strip ts (drop (tokenLength ts s) s)"
  by (simp add: strip.simps [of ts s])



lemma tokenLength_strip: "tokenLength ts (strip ts s) = 0"
proof (induction ts s rule: strip.induct)
  case (1 ts s)
  show ?case
  proof (cases "tokenLength ts s = 0")
    case True
    then show ?thesis by (simp add: strip_stop)
  next
    case False
    with 1 show ?thesis by (simp add: strip_step)
  qed
qed

lemma strip_drop: "\<exists>n. strip ts s = drop n s"
proof (induction ts s rule: strip.induct)
  case (1 ts s)
  show ?case
  proof (cases "tokenLength ts s = 0")
    case True
    then have "strip ts s = drop 0 s" by (simp add: strip_stop)
    then show ?thesis by blast
  next
    case False
    with 1 obtain n where "strip ts (drop (tokenLength ts s) s) = drop n (drop (tokenLength ts s) s)"
      by blast
    with False have "strip ts s = drop (n + tokenLength ts s) s"
      by (simp add: strip_step)
    then show ?thesis by blast
  qed
qed

lemma whiteSpace_nonempty: "[] \<notin> set whiteSpace" "[] \<notin> set (map rev whiteSpace)"
  by (simp_all add: whiteSpace_def)

lemma set_concat_rev: "set (concat (map rev ts)) = set (concat ts)"
  by auto

lemma tokenLength_hd:
  assumes "s \<noteq> []" "hd s \<notin> set (concat ts)"
  shows "tokenLength ts s = 0"
proof (rule tokenLength_zero)
  fix w assume w: "w \<in> set ts" "take (length w) s = w"
  show "w = []"
  proof (rule ccontr)
    assume "w \<noteq> []"
    with w(2) assms(1) have "hd w = hd s" by (cases w; cases s) auto
    moreover from \<open>w \<noteq> []\<close> w(1) have "hd w \<in> set (concat ts)"
      by (auto intro!: bexI [of _ w])
    ultimately show False using assms(2) by simp
  qed
qed

lemma tokenLength_append:
  assumes "tokenLength ts y = 0" "[] \<notin> set ts" "z \<noteq> []" "hd z \<notin> set (concat ts)"
  shows "tokenLength ts (y @ z) = 0"
proof (rule tokenLength_zero)
  fix w assume w: "w \<in> set ts" "take (length w) (y @ z) = w"
  show "w = []"
  proof (cases "length w \<le> length y")
    case True
    with w(2) have "take (length w) y = w" by simp
    from tokenLength_zeroD [OF assms(1) w(1) this] assms(2) show ?thesis by simp
  next
    case False
    then have "take (length w - length y) z \<noteq> []" using assms(3) by simp
    then have "hd z \<in> set (take (length w - length y) z)"
      using assms(3) by (cases z; cases "length w - length y") auto
    moreover from w(2) False have "w = y @ take (length w - length y) z" by simp
    ultimately have "hd z \<in> set w" by (metis Un_iff set_append)
    with w(1) assms(4) show ?thesis by auto
  qed
qed

lemma trim_keep:
  assumes "tokenLength whiteSpace y = 0" "z \<noteq> []"
    "hd z \<notin> set (concat whiteSpace)" "last z \<notin> set (concat whiteSpace)"
  shows "trim (y @ z) = y @ z"
proof -
  have "tokenLength whiteSpace (y @ z) = 0"
    using assms(1) whiteSpace_nonempty(1) assms(2,3) by (rule tokenLength_append)
  then have a: "strip whiteSpace (y @ z) = y @ z" by (rule strip_stop)
  have "tokenLength (map rev whiteSpace) (rev (y @ z)) = 0"
    using assms(2,4) by (intro tokenLength_hd) (simp_all add: hd_rev set_concat_rev del: set_concat)
  then have "strip (map rev whiteSpace) (rev (y @ z)) = rev (y @ z)" by (rule strip_stop)
  with a show ?thesis by (simp add: trim_def)
qed

lemma visible_not_whiteSpace:
  assumes "33 \<le> (of_char c :: nat)" "(of_char c :: nat) \<le> 126"
  shows "c \<notin> set (concat whiteSpace)"
proof
  assume "c \<in> set (concat whiteSpace)"
  then have "(of_char c :: nat) \<in> of_char ` set (concat whiteSpace)" by blast
  also have "of_char ` set (concat whiteSpace) \<subseteq> ({..32} \<union> {127..} :: nat set)"
    by (simp add: whiteSpace_def)
  finally show False using assms by auto
qed

lemma trim_visible:
  assumes "z \<noteq> []" "33 \<le> (of_char (hd z) :: nat)" "(of_char (hd z) :: nat) \<le> 126"
    "33 \<le> (of_char (last z) :: nat)" "(of_char (last z) :: nat) \<le> 126"
  shows "trim z = z"
proof -
  have a: "hd z \<notin> set (concat whiteSpace)" "last z \<notin> set (concat whiteSpace)"
    by (rule visible_not_whiteSpace; fact)+
  from trim_keep [OF tokenLength_Nil assms(1) a] show ?thesis by simp
qed

lemma tokenLength_trim: "tokenLength whiteSpace (trim t) = 0"
proof (rule tokenLength_zero)
  fix w assume w: "w \<in> set whiteSpace" "take (length w) (trim t) = w"
  let ?x = "strip whiteSpace t"
  obtain n where "strip (map rev whiteSpace) (rev ?x) = drop n (rev ?x)"
    using strip_drop by blast
  then have t: "trim t = take (length ?x - n) ?x"
    by (simp add: trim_def rev_drop)
  from w(2) have "length (take (length w) (trim t)) = length w" by simp
  then have "length w \<le> length (trim t)" by simp
  with t have "length w \<le> length ?x - n" by simp
  with w(2) have "take (length w) ?x = w" by (simp add: t min_def)
  from tokenLength_zeroD [OF tokenLength_strip w(1) this] whiteSpace_nonempty(1)
  show "w = []" by simp
qed

lemma trim_hhmm: "trim (trim t @ '':00'') = trim t @ '':00''"
proof (rule trim_keep [OF tokenLength_trim])
  show "'':00'' \<noteq> []" by simp
  show "hd '':00'' \<notin> set (concat whiteSpace)" by (rule visible_not_whiteSpace) simp_all
  show "last '':00'' \<notin> set (concat whiteSpace)" by (rule visible_not_whiteSpace) simp_all
qed

subsection \<open>Lengths\<close>

lemma jsLength_Nil: "jsLength [] = 0"
  by (simp add: jsLength_def)

lemma jsLength_append: "jsLength (s @ t) = jsLength s + jsLength t"
  by (simp add: jsLength_def)


subsection \<open>Sorting\<close>

lemma set_insertBy: "set (insertBy cmp x xs) = insert x (set xs)"
  by (induction xs) auto

lemma set_sortBy: "set (sortBy cmp xs) = set xs"
  by (induction xs) (simp_all add: sortBy_def set_insertBy)

lemma set_permuted: "set (permuted p xs) = set xs"
proof (cases "distinct p \<and> set p = {0..<length xs}")
  case True
  then have "set (permuted p xs) = (\<lambda>i. xs ! i) ` {0..<length xs}"
    by (simp add: permuted_def)
  also have "\<dots> = set xs"
    by (auto simp: set_conv_nth)
  finally show ?thesis .
next
  case False
  then show ?thesis by (auto simp: permuted_def)
qed

lemma set_arraySort: "set (arraySort W cmp xs) = set xs"
  by (simp add: arraySort_def set_sortBy set_permuted)

lemma insertBy_insort_key:
  assumes "\<And>y. y \<in> set ys \<Longrightarrow> isPositive (cmp x y) = (k y < k x)"
  shows "insertBy cmp x ys = insort_key k x ys"
  using assms by (induction ys) (auto simp: not_less)

lemma sortBy_sort_key:
  assumes "\<And>x y. x \<in> set xs \<Longrightarrow> y \<in> set xs \<Longrightarrow> isPositive (cmp x y) = (k y < k x)"
  shows "sortBy cmp xs = sort_key k xs"
  using assms
proof (induction xs)
  case Nil
  show ?case by (simp add: sortBy_def)
next
  case (Cons x xs)
  have ih: "sortBy cmp xs = sort_key k xs"
    by (rule Cons.IH) (simp_all add: Cons.prems)
  have "insertBy cmp x (sort_key k xs) = insort_key k x (sort_key k xs)"
    by (rule insertBy_insort_key) (simp add: Cons.prems)
  with ih show ?case by (simp add: sortBy_def)
qed

lemma consistent_by_key:
  fixes k :: "'a \<Rightarrow> 'b::linorder"
  assumes pos: "\<And>x y. x \<in> set xs \<Longrightarrow> y \<in> set xs \<Longrightarrow> isPositive (cmp x y) = (k y < k x)"
    and neg: "\<And>x y. x \<in> set xs \<Longrightarrow> y \<in> set xs \<Longrightarrow> isNegative (cmp x y) = (k x < k y)"
  shows "consistentComparator cmp xs"
proof -
  have zero: "isZero (cmp x y) = (k x = k y)" if "x \<in> set xs" "y \<in> set xs" for x y
    using pos [OF that] neg [OF that] by (auto simp: isZero_def)
  show ?thesis
    unfolding consistentComparator_def list_all_iff
  proof (intro ballI conjI impI)
    fix a assume "a \<in> set xs"
    then show "isZero (cmp a a)" by (simp add: zero)
  next
    fix a b assume "a \<in> set xs" "b \<in> set xs" "isZero (cmp a b)"
    then show "isZero (cmp b a)" by (simp add: zero)
  next
    fix a b c assume "a \<in> set xs" "b \<in> set xs" "c \<in> set xs"
      "isZero (cmp a b) \<and> isZero (cmp b c)"
    then show "isZero (cmp a c)" by (simp add: zero)
  next
    fix a b c assume "a \<in> set xs" "b \<in> set xs" "c \<in> set xs"
      "isNegative (cmp a b) \<and> isNegative (cmp b c)"
    then show "isNegative (cmp a c)" by (auto simp: neg)
  next
    fix a b c assume "a \<in> set xs" "b \<in> set xs" "c \<in> set xs"
      "isPositive (cmp a b) \<and> isPositive (cmp b c)"
    then show "isPositive (cmp a c)" by (auto simp: pos)
  qed
qed

lemma arraySort_sort_key:
  fixes k :: "'a \<Rightarrow> 'b::linorder"
  assumes pos: "\<And>x y. x \<in> set xs \<Longrightarrow> y \<in> set xs \<Longrightarrow> isPositive (cmp x y) = (k y < k x)"
    and neg: "\<And>x y. x \<in> set xs \<Longrightarrow> y \<in> set xs \<Longrightarrow> isNegative (cmp x y) = (k x < k y)"
  shows "arraySort W cmp xs = sort_key k xs"
  using consistent_by_key [of xs cmp k, OF pos neg] sortBy_sort_key [of xs cmp k, OF pos]
  by (simp add: arraySort_def)

lemma hd_sort_key_least:
  assumes "y \<in> set xs"
  shows "k (hd (sort_key k xs)) \<le> k y"
proof -
  have s: "sorted (map k (sort_key k xs))" by (rule sorted_sort_key)
  from assms have y: "y \<in> set (sort_key k xs)" by simp
  then obtain z zs where c: "sort_key k xs = z # zs" by (cases "sort_key k xs") auto
  with s y show ?thesis by auto
qed

lemma hd_sort_key_first:
  assumes "xs \<noteq> []"
  shows "hd (sort_key k xs) = hd (filter (\<lambda>y. k y = k (hd (sort_key k xs))) xs)"
proof -
  from assms have "set (sort_key k xs) \<noteq> {}" by simp
  then obtain z zs where c: "sort_key k xs = z # zs"
    by (cases "sort_key k xs") simp_all
  have "filter (\<lambda>y. k y = k z) (sort_key k xs) = filter (\<lambda>y. k y = k z) xs"
    by (rule sort_key_stable)
  then have "z # filter (\<lambda>y. k y = k z) zs = filter (\<lambda>y. k y = k z) xs"
    by (simp add: c)
  from this [symmetric] have "hd (filter (\<lambda>y. k y = k z) xs) = z" by simp
  then show ?thesis by (simp add: c)
qed

subsection \<open>One run, one dispatch\<close>

lemma posts_updateRow_v1: "posts (updateRow_v1 W r h u) = []"
  by (simp add: updateRow_v1_def Let_def)

lemma posts_updateRowByHeader: "posts (updateRowByHeader t h r u) = []"
  by (simp add: updateRowByHeader_def Let_def)

lemma posts_updateRow_v4: "posts (snd (updateRow_v4 W r h u)) = []"
  by (simp add: updateRow_v4_def fetchRows_v4_def Let_def split: sum.splits)

lemma writes_updateRow_v1: "length (filter isWrite (updateRow_v1 W r h u)) = Suc 0"
  by (simp add: updateRow_v1_def Let_def)

lemma writes_updateRowByHeader: "length (filter isWrite (updateRowByHeader t h r u)) \<le> Suc 0"
  by (simp add: updateRowByHeader_def Let_def)

lemma writes_updateRow_v4: "length (filter isWrite (snd (updateRow_v4 W r h u))) \<le> Suc 0"
  by (simp add: updateRow_v4_def fetchRows_v4_def Let_def split: sum.splits)

lemma posts_dispatch_v1:
  "length (posts (snd (dispatch_v1 W h i (ValuesGet rg) it))) \<le> Suc 0"
  by (simp add: dispatch_v1_def Let_def posts_updateRow_v1 split: sum.splits)

lemma posts_dispatch_v3:
  "length (posts (snd (dispatch_v3 W q h (ValuesGet rg) it))) \<le> Suc 0"
  by (simp add: dispatch_v3_def Let_def updateRow_v3_def split: sum.splits)

lemma posts_dispatch_v4:
  "length (posts (snd (dispatch_v4 W h (ValuesGet rg) p))) \<le> Suc 0"
  by (simp add: dispatch_v4_def Let_def posts_updateRow_v4 split: sum.splits)

lemma posts_dispatch_v5:
  "length (posts (snd (dispatch_v5 W h (ValuesGet rg) c))) \<le> Suc 0"
  by (simp add: dispatch_v5_def Let_def posts_updateRowByHeader split: sum.splits)

lemma writes_dispatch_v1:
  "length (filter isWrite (snd (dispatch_v1 W h i (ValuesGet rg) it))) \<le> Suc 0"
  by (simp add: dispatch_v1_def Let_def writes_updateRow_v1 split: sum.splits)

lemma writes_dispatch_v3:
  "length (filter isWrite (snd (dispatch_v3 W q h (ValuesGet rg) it))) \<le> Suc 0"
  by (simp add: dispatch_v3_def Let_def updateRow_v3_def split: sum.splits)

lemma writes_dispatch_v4:
  "length (filter isWrite (snd (dispatch_v4 W h (ValuesGet rg) p))) \<le> Suc 0"
  by (simp add: dispatch_v4_def Let_def writes_updateRow_v4 split: sum.splits)

lemma writes_dispatch_v5:
  "length (filter isWrite (snd (dispatch_v5 W h (ValuesGet rg) c))) \<le> Suc 0"
  by (simp add: dispatch_v5_def Let_def writes_updateRowByHeader split: sum.splits)

lemma fetchRowsAndHeaders_call:
  assumes "fetchRowsAndHeaders W = Inr f"
  shows "snd f = ValuesGet (Range (quoteSheetName (trim (trim (tabName W)))) ''A'' None ''Z'' None)"
  using assms by (auto simp: fetchRowsAndHeaders_def Let_def split: if_splits)

lemma calls_main_v1:
  "length (posts (snd (main_v1 W))) \<le> 1 \<and> length (filter isWrite (snd (main_v1 W))) \<le> 1"
  by (simp add: main_v1_def Let_def posts_dispatch_v1 writes_dispatch_v1 split: sum.splits)

lemma calls_main_v3:
  "length (posts (snd (main_v3 W))) \<le> 1 \<and> length (filter isWrite (snd (main_v3 W))) \<le> 1"
  by (simp add: main_v3_def Let_def posts_dispatch_v3 writes_dispatch_v3 split: sum.splits)

lemma calls_main_v4:
  "length (posts (snd (main_v4 W))) \<le> 1 \<and> length (filter isWrite (snd (main_v4 W))) \<le> 1"
  by (simp add: main_v4_def Let_def fetchRows_v4_def posts_dispatch_v4 writes_dispatch_v4
      split: sum.splits)

lemma calls_main_v5:
  "length (posts (snd (main_v5 W))) \<le> 1 \<and> length (filter isWrite (snd (main_v5 W))) \<le> 1"
proof (cases "fetchRowsAndHeaders W")
  case (Inl e)
  then show ?thesis by (simp add: main_v5_def)
next
  case (Inr f)
  from fetchRowsAndHeaders_call [OF Inr] Inr show ?thesis
    by (simp add: main_v5_def posts_dispatch_v5 writes_dispatch_v5 split: sum.splits)
qed

text \<open>
  C1. In every run of each of the four versions, whatever the sheet holds and whatever
  the posting endpoint answers, at most one posting call is made and at most one write
  request is sent to the sheet: the run selects one row at most, dispatches it once, and
  ends. (Every function of the model is total, so every run ends.)
\<close>

theorem C1_at_most_one_dispatch:
  "length (posts (snd (main_v1 W))) \<le> 1 \<and> length (filter isWrite (snd (main_v1 W))) \<le> 1
   \<and> length (posts (snd (main_v3 W))) \<le> 1 \<and> length (filter isWrite (snd (main_v3 W))) \<le> 1
   \<and> length (posts (snd (main_v4 W))) \<le> 1 \<and> length (filter isWrite (snd (main_v4 W))) \<le> 1
   \<and> length (posts (snd (main_v5 W))) \<le> 1 \<and> length (filter isWrite (snd (main_v5 W))) \<le> 1"
  using calls_main_v1 [of W] calls_main_v3 [of W] calls_main_v4 [of W] calls_main_v5 [of W]
  by simp

subsection \<open>The example world, evaluated\<close>

lemma ex_trims:
  "trim ''id'' = ''id''" "trim ''Publish Date'' = ''Publish Date''"
  "trim ''Time (UTC)'' = ''Time (UTC)''" "trim ''Post Text'' = ''Post Text''"
  "trim ''Status'' = ''Status''" "trim ''Tweet ID'' = ''Tweet ID''"
  "trim ''Posted At'' = ''Posted At''" "trim ''Note'' = ''Note''"
  "trim ''Pending'' = ''Pending''" "trim ''Posts'' = ''Posts''"
  "trim ''second'' = ''second''" "trim ''first'' = ''first''" "trim ''later'' = ''later''"
  "trim ''hello'' = ''hello''"
  "trim ''2026-01-31'' = ''2026-01-31''" "trim ''2026-02-01'' = ''2026-02-01''"
  "trim ''2026-13-45'' = ''2026-13-45''"
  "trim ''10:00'' = ''10:00''" "trim ''10:00:00'' = ''10:00:00''"
  "trim ''10'' = ''10''" "trim ''00'' = ''00''"
  by (rule trim_visible; simp)+



lemma ex_lower:
  "asciiLowerCase ''Pending'' = ''pending''" "asciiLowerCase ''pending'' = ''pending''"
  "asciiLowerCase ''id'' = ''id''" "asciiLowerCase ''Publish Date'' = ''publish date''"
  "asciiLowerCase ''Time (UTC)'' = ''time (utc)''" "asciiLowerCase ''Post Text'' = ''post text''"
  "asciiLowerCase ''Status'' = ''status''" "asciiLowerCase ''status'' = ''status''"
  "asciiLowerCase ''Tweet ID'' = ''tweet id''" "asciiLowerCase ''Posted At'' = ''posted at''"
  "asciiLowerCase ''Note'' = ''note''" "asciiLowerCase ''Audit'' = ''audit''"
  by (simp_all add: asciiLowerCase_def lowerChar_def)


lemma ex_valuesGet: "valuesGet exSheet None = exSheet"
  by (simp add: valuesGet_def rowAZ_def dropTrailing_def exSheet_def exHeader_def)

lemma ex_trim_header: "map trim exHeader = exHeader"
  by (simp add: exHeader_def ex_trims)

lemma ex_rowObject: "n \<in> {1, 2, 3} \<Longrightarrow> rowObject exHeader (exSheet ! n) = exFields n"
  by (auto simp: rowObject_def exFields_def exSheet_def exHeader_def elemAt_def)













lemma ex_fetch_v5:
  assumes "sheet W = exSheet" "tabName W = ''Posts''" "tabTitles W = [''Posts'']"
  shows "fetchRowsAndHeaders W =
    Inr ((exHeader, [\<lparr>rw_fields = exFields 1, rw_rowIndex = 2\<rparr>,
                     \<lparr>rw_fields = exFields 2, rw_rowIndex = 3\<rparr>,
                     \<lparr>rw_fields = exFields 3, rw_rowIndex = 4\<rparr>]),
         ValuesGet (Range (quoteSheetName ''Posts'') ''A'' None ''Z'' None))"
proof -
  have "[0..<length (tl exSheet)] = [0, 1, 2]" by (simp add: exSheet_def upt_rec)
  moreover have "hd exSheet = exHeader" "\<not> length exSheet < 2"
    "\<And>n. tl exSheet ! n = exSheet ! (n + 1)"
    by (simp_all add: exSheet_def)
  ultimately show ?thesis
    using assms
    by (simp add: fetchRowsAndHeaders_def ex_valuesGet ex_trim_header ex_rowObject ex_trims
        del: One_nat_def)
qed

















subsection \<open>The text that is posted\<close>






subsection \<open>A rejected post\<close>











subsection \<open>A success that names no id\<close>















subsection \<open>Columns A to Z\<close>

lemma letterIndex_bound:
  assumes "letterIndex c = Some v"
  shows "v < 26"
proof -
  from assms have "(upperChar c, v) \<in> set (zip ''ABCDEFGHIJKLMNOPQRSTUVWXYZ'' [0..<26])"
    unfolding letterIndex_def by (rule map_of_SomeD)
  then have "v \<in> set [0..<26]" by (rule set_zip_rightD)
  then show ?thesis by simp
qed

lemma ascii_letters:
  "\<forall>c\<in>set ''ABCDEFGHIJKLMNOPQRSTUVWXYZabcdefghijklmnopqrstuvwxyz''. (of_char c :: nat) < 128"
  by simp

lemma upperChar_cases:
  "upperChar c = c \<or> c \<in> set ''abcdefghijklmnopqrstuvwxyz''"
proof (cases "map_of (zip ''abcdefghijklmnopqrstuvwxyz'' ''ABCDEFGHIJKLMNOPQRSTUVWXYZ'') c")
  case None
  then show ?thesis by (simp add: upperChar_def)
next
  case (Some u)
  then have "(c, u) \<in> set (zip ''abcdefghijklmnopqrstuvwxyz'' ''ABCDEFGHIJKLMNOPQRSTUVWXYZ'')"
    by (rule map_of_SomeD)
  then have "c \<in> set ''abcdefghijklmnopqrstuvwxyz''" by (rule set_zip_leftD)
  then show ?thesis by blast
qed

lemma letterIndex_ascii:
  assumes "letterIndex c = Some v"
  shows "(of_char c :: nat) < 128"
proof -
  from assms have "(upperChar c, v) \<in> set (zip ''ABCDEFGHIJKLMNOPQRSTUVWXYZ'' [0..<26])"
    unfolding letterIndex_def by (rule map_of_SomeD)
  then have u: "upperChar c \<in> set ''ABCDEFGHIJKLMNOPQRSTUVWXYZ''" by (rule set_zip_leftD)
  from upperChar_cases [of c]
  have "c \<in> set ''ABCDEFGHIJKLMNOPQRSTUVWXYZabcdefghijklmnopqrstuvwxyz''"
  proof
    assume "upperChar c = c"
    with u show ?thesis by auto
  next
    assume "c \<in> set ''abcdefghijklmnopqrstuvwxyz''"
    then show ?thesis by auto
  qed
  with ascii_letters show ?thesis by blast
qed

lemma a1Column_single: "a1Column [c] = letterIndex c"
  by (cases "letterIndex c") (simp_all add: a1Column_def)

lemma a1Column_high:
  assumes "128 \<le> (of_char c :: nat)"
  shows "a1Column (c # cs) = None"
proof -
  have "letterIndex c = None"
  proof (cases "letterIndex c")
    case None
    then show ?thesis .
  next
    case (Some v)
    from letterIndex_ascii [OF this] assms show ?thesis by simp
  qed
  then show ?thesis by (simp add: a1Column_def)
qed

lemma withinAZ_fromCharCode: "withinAZ (fromCharCode n)"
proof -
  let ?u = "n mod 65536"
  consider "?u < 128" | "128 \<le> ?u" "?u < 2048" | "2048 \<le> ?u" by linarith
  then show ?thesis
  proof cases
    case 1
    then have "fromCharCode n = [char_of ?u]" by (simp add: fromCharCode_def)
    then show ?thesis
      by (auto simp: withinAZ_def a1Column_single dest: letterIndex_bound split: option.splits)
  next
    case 2
    then have f: "fromCharCode n = [char_of (192 + ?u div 64), char_of (128 + ?u mod 64)]"
      by (simp add: fromCharCode_def Let_def)
    from 2 have "192 + ?u div 64 < 256" by simp
    then have "(of_char (char_of (192 + ?u div 64) :: char) :: nat) = 192 + ?u div 64"
      by (simp add: of_char_of)
    then have "128 \<le> (of_char (char_of (192 + ?u div 64) :: char) :: nat)" by simp
    from a1Column_high [OF this] show ?thesis by (simp add: withinAZ_def f)
  next
    case 3
    then have f: "fromCharCode n = [char_of (224 + ?u div 4096), char_of (128 + (?u div 64) mod 64),
               char_of (128 + ?u mod 64)]"
      by (simp add: fromCharCode_def Let_def)
    have "?u < 65536" by simp
    then have "224 + ?u div 4096 < 256" by simp
    then have "(of_char (char_of (224 + ?u div 4096) :: char) :: nat) = 224 + ?u div 4096"
      by (simp add: of_char_of)
    then have "128 \<le> (of_char (char_of (224 + ?u div 4096) :: char) :: nat)" by simp
    from a1Column_high [OF this] show ?thesis by (simp add: withinAZ_def f)
  qed
qed

lemma withinAZ_single: "withinAZ [c]"
  by (auto simp: withinAZ_def a1Column_single dest: letterIndex_bound split: option.splits)

lemma withinAZ_A_Z: "withinAZ ''A''" "withinAZ ''Z''"
  by (rule withinAZ_single)+

lemma within_updateRow_v1: "list_all callWithinAZ (updateRow_v1 W r h u)"
  by (simp add: updateRow_v1_def Let_def withinAZ_A_Z)

lemma within_updateRowByHeader: "list_all callWithinAZ (updateRowByHeader tab headers r us)"
  by (auto simp: updateRowByHeader_def data_v5_def Let_def list_all_iff withinAZ_fromCharCode)

lemma within_updateRow_v4: "list_all callWithinAZ (snd (updateRow_v4 W r headers us))"
  by (simp add: updateRow_v4_def fetchRows_v4_def Let_def withinAZ_A_Z withinAZ_fromCharCode
      split: sum.splits)

lemma length_dropTrailing: "length (dropTrailing e xs) \<le> length xs"
  by (simp add: dropTrailing_def length_dropWhile_le [of _ "rev xs", simplified])

lemma length_rowAZ: "length (rowAZ cells) \<le> 26"
proof -
  have "length (rowAZ cells) \<le> length (take 26 cells)"
    unfolding rowAZ_def by (rule length_dropTrailing)
  then show ?thesis by simp
qed

lemma set_dropTrailing: "set (dropTrailing e xs) \<subseteq> set xs"
  by (auto simp: dropTrailing_def dest: set_dropWhileD)

lemma valuesGet_width: "list_all (\<lambda>row. length row \<le> 26) (valuesGet sh n)"
proof -
  have "set (valuesGet sh n) \<subseteq> rowAZ ` set (case n of None \<Rightarrow> sh | Some k \<Rightarrow> take k sh)"
    unfolding valuesGet_def using set_dropTrailing [of "[]" "map rowAZ (case n of None \<Rightarrow> sh | Some k \<Rightarrow> take k sh)"]
    by simp
  then show ?thesis
    unfolding list_all_iff using length_rowAZ by blast
qed

lemma valuesGetRow_width: "length (valuesGetRow sh r) \<le> 26"
  by (simp add: valuesGetRow_def length_rowAZ)


lemma letters_codes:
  "\<forall>i\<in>set [0..<26]. (of_char (''ABCDEFGHIJKLMNOPQRSTUVWXYZ'' ! i) :: nat) = 65 + i
      \<and> letterIndex (''ABCDEFGHIJKLMNOPQRSTUVWXYZ'' ! i) = Some i"
  unfolding letterIndex_def upperChar_def
  by (simp add: upt_conv_Cons)

lemma a1Column_fromCharCode:
  assumes "i < 26"
  shows "a1Column (fromCharCode (65 + i)) = Some i"
proof -
  let ?c = "''ABCDEFGHIJKLMNOPQRSTUVWXYZ'' ! i"
  from letters_codes assms have c: "(of_char ?c :: nat) = 65 + i" and l: "letterIndex ?c = Some i"
    by simp_all
  have "char_of (65 + i) = char_of (of_char ?c :: nat)" by (simp only: c)
  then have "char_of (65 + i) = ?c" by (simp only: char_of_char)
  moreover from assms have "fromCharCode (65 + i) = [char_of (65 + i)]"
    by (simp add: fromCharCode_def)
  ultimately show ?thesis by (simp add: a1Column_single l)
qed

lemma beyond_Z:
  assumes "26 \<le> j"
  shows "a1Column (fromCharCode n) \<noteq> Some j"
  using withinAZ_fromCharCode [of n] assms by (auto simp: withinAZ_def)

lemma within_dispatch_v1: "list_all callWithinAZ (snd (dispatch_v1 W h i (ValuesGet (Range t ''A'' a ''Z'' b)) it))"
  by (simp add: dispatch_v1_def Let_def within_updateRow_v1 withinAZ_A_Z split: sum.splits)

lemma within_main_v1: "list_all callWithinAZ (snd (main_v1 W))"
  by (simp add: main_v1_def Let_def within_dispatch_v1 withinAZ_A_Z split: sum.splits)

lemma within_dispatch_v3: "list_all callWithinAZ (snd (dispatch_v3 W q h (ValuesGet (Range t ''A'' a ''Z'' b)) it))"
  by (simp add: dispatch_v3_def Let_def updateRow_v3_def withinAZ_A_Z split: sum.splits)

lemma within_main_v3: "list_all callWithinAZ (snd (main_v3 W))"
  by (simp add: main_v3_def Let_def within_dispatch_v3 withinAZ_A_Z split: sum.splits)

lemma within_dispatch_v4: "list_all callWithinAZ (snd (dispatch_v4 W h (ValuesGet (Range t ''A'' a ''Z'' b)) p))"
  by (simp add: dispatch_v4_def Let_def within_updateRow_v4 withinAZ_A_Z split: sum.splits)

lemma within_main_v4: "list_all callWithinAZ (snd (main_v4 W))"
  by (simp add: main_v4_def Let_def fetchRows_v4_def within_dispatch_v4 withinAZ_A_Z split: sum.splits)

lemma within_dispatch_v5: "list_all callWithinAZ (snd (dispatch_v5 W h (ValuesGet (Range t ''A'' a ''Z'' b)) c))"
  by (simp add: dispatch_v5_def Let_def within_updateRowByHeader withinAZ_A_Z split: sum.splits)

lemma within_main_v5: "list_all callWithinAZ (snd (main_v5 W))"
proof (cases "fetchRowsAndHeaders W")
  case (Inl e)
  then show ?thesis by (simp add: main_v5_def)
next
  case (Inr f)
  from fetchRowsAndHeaders_call [OF Inr] Inr show ?thesis
    by (simp add: main_v5_def within_dispatch_v5 withinAZ_A_Z split: sum.splits)
qed


text \<open>
  C10. No request of a run names a column beyond \<open>Z\<close>: every range of every call of the
  four versions, and of the three update functions on any header list, has columns that
  are \<open>A\<close>-\<open>Z\<close> or name no column at all. The sheet is read with the ranges \<^verbatim>\<open>A1:Z10000\<close> and
  \<^verbatim>\<open>A:Z\<close>, which return 26 cells of a row at most. The column letter of the per-field
  update is the one code unit \<open>65 + index\<close>: for an index below 26 it names that column,
  and for no index does it name a column from 26 on, so a field beyond the 26th column is
  never read and never written.
\<close>

theorem C10_columns_A_to_Z:
  "list_all callWithinAZ (snd (main_v1 W))
   \<and> list_all callWithinAZ (snd (main_v3 W))
   \<and> list_all callWithinAZ (snd (main_v4 W))
   \<and> list_all callWithinAZ (snd (main_v5 W))
   \<and> list_all callWithinAZ (updateRow_v1 W r headers us)
   \<and> list_all callWithinAZ (snd (updateRow_v4 W r headers us))
   \<and> list_all callWithinAZ (updateRowByHeader tab headers r us)
   \<and> (26 \<le> j \<longrightarrow> a1Column (fromCharCode (65 + i)) \<noteq> Some j)
   \<and> (i < 26 \<longrightarrow> a1Column (fromCharCode (65 + i)) = Some i)
   \<and> (fetchRowsAndHeaders W = Inr f \<longrightarrow>
        snd f = ValuesGet (Range (quoteSheetName (trim (trim (tabName W)))) ''A'' None ''Z'' None))
   \<and> snd (fetchRows_v4 W) = ValuesGet (Range (tabName W) ''A'' None ''Z'' None)
   \<and> hd (snd (main_v1 W)) = ValuesGet (Range (tabName W) ''A'' (Some 1) ''Z'' (Some 10000))
   \<and> list_all (\<lambda>row. length row \<le> 26) (valuesGet sh n)
   \<and> length (valuesGetRow sh r) \<le> 26"
proof -
  have f8: "26 \<le> j \<longrightarrow> a1Column (fromCharCode (65 + i)) \<noteq> Some j"
    using beyond_Z [of j "65 + i"] by blast
  have f9: "i < 26 \<longrightarrow> a1Column (fromCharCode (65 + i)) = Some i"
    using a1Column_fromCharCode [of i] by blast
  have f10: "fetchRowsAndHeaders W = Inr f \<longrightarrow>
        snd f = ValuesGet (Range (quoteSheetName (trim (trim (tabName W)))) ''A'' None ''Z'' None)"
    using fetchRowsAndHeaders_call [of W f] by blast
  have f11: "snd (fetchRows_v4 W) = ValuesGet (Range (tabName W) ''A'' None ''Z'' None)"
    by (simp add: fetchRows_v4_def Let_def)
  have f12: "hd (snd (main_v1 W)) = ValuesGet (Range (tabName W) ''A'' (Some 1) ''Z'' (Some 10000))"
    by (simp add: main_v1_def dispatch_v1_def Let_def split: sum.splits)
  show ?thesis
    by (intro conjI; fact within_main_v1 within_main_v3 within_main_v4 within_main_v5
        within_updateRow_v1 within_updateRow_v4 within_updateRowByHeader f8 f9 f10 f11 f12
        valuesGet_width valuesGetRow_width)
qed

theorem C10_columns_witness:
  "a1Column (fromCharCode (65 + 30)) \<noteq> Some 26
   \<and> a1Column (fromCharCode (65 + 4)) = Some 4
   \<and> ValuesGet (Range (quoteSheetName ''Posts'') ''A'' None ''Z'' None)
       = ValuesGet (Range (quoteSheetName (trim (trim (tabName exWorld)))) ''A'' None ''Z'' None)"
proof -
  have w: "sheet exWorld = exSheet" "tabName exWorld = ''Posts''" "tabTitles exWorld = [''Posts'']"
    by (simp_all add: exWorld_def)
  note T = C10_columns_A_to_Z [where W = exWorld]
  from T [where i = 30 and j = 26] have a: "a1Column (fromCharCode (65 + 30)) \<noteq> Some 26"
    by simp
  from T [where i = 4] have b: "a1Column (fromCharCode (65 + 4)) = Some 4"
    by simp
  from T [where f = "((exHeader, [\<lparr>rw_fields = exFields 1, rw_rowIndex = 2\<rparr>,
                     \<lparr>rw_fields = exFields 2, rw_rowIndex = 3\<rparr>,
                     \<lparr>rw_fields = exFields 3, rw_rowIndex = 4\<rparr>]),
         ValuesGet (Range (quoteSheetName ''Posts'') ''A'' None ''Z'' None))"]
    ex_fetch_v5 [OF w]
  have c: "ValuesGet (Range (quoteSheetName ''Posts'') ''A'' None ''Z'' None)
       = ValuesGet (Range (quoteSheetName (trim (trim (tabName exWorld)))) ''A'' None ''Z'' None)"
    by (metis snd_conv)
  from a b c show ?thesis by blast
qed

end
